theory Spec2Isabelle
  imports Main "HOL-Library.Sublist"
begin

section \<open>The CAN bridge service shell (main.go)\<close>

text \<open>
  The repository's source is the orchestration shell \<^verbatim>\<open>main.go\<close>: the type
  \<^verbatim>\<open>Service\<close> with \<^verbatim>\<open>Initialize\<close>, \<^verbatim>\<open>Start\<close>, \<^verbatim>\<open>Stop\<close>, \<^verbatim>\<open>GetStatus\<close> and
  the function \<^verbatim>\<open>main\<close>. The components it drives (configuration parser, interface
  setup manager, interface manager, watchdog, monitor, API handler, HTTP server) are
  not part of the file. They are therefore parameters of the model: a record of
  functions, one per method that main.go calls, each acting on an arbitrary world
  \<open>'w\<close> and free to return any result, to return an error, or not to return at all.
  Every theorem below holds for all such collaborators unless it names a hypothesis.
\<close>

subsection \<open>Data\<close>

text \<open>A Go \<^verbatim>\<open>error\<close> is represented by the text its \<^verbatim>\<open>Error()\<close> method yields;
  \<^verbatim>\<open>nil\<close> is \<open>None\<close> of \<open>error option\<close>.\<close>

type_synonym error = string

text \<open>The fields of \<^verbatim>\<open>Config\<close> that main.go reads.\<close>

record Config =
  CanPorts :: "string list"
  Port :: string

text \<open>The fields of the interface state that main.go reads (lines 146-147).\<close>

record InterfaceState =
  Bitrate :: int
  State :: string
  IsUp :: bool

record WatchdogStatus =
  Running :: bool

text \<open>The fields of the monitor's snapshot that \<^verbatim>\<open>GetStatus\<close> reads; the uptime is a
  \<^verbatim>\<open>time.Duration\<close>, an integer number of nanoseconds.\<close>

record SystemStatus =
  SystemUptime :: int
  ActiveInterfaces :: "string list"
  WatchdogStatus :: WatchdogStatus

text \<open>\<^verbatim>\<open>context.Context\<close> values as main.go builds them; the duration of
  \<^verbatim>\<open>WithTimeout\<close> is in nanoseconds, \<^verbatim>\<open>time.Second\<close> being \<open>10^9\<close>.\<close>

datatype Context = Background | WithCancel Context | WithTimeout Context int

definition Second :: int where
  "Second = 1000000000"

fun timeout_of :: "Context \<Rightarrow> int option" where
  "timeout_of Background = None"
| "timeout_of (WithCancel parent) = timeout_of parent"
| "timeout_of (WithTimeout parent d) =
     (case timeout_of parent of None \<Rightarrow> Some d | Some d' \<Rightarrow> Some (min d d'))"

text \<open>The \<^verbatim>\<open>http.Server\<close> fields \<^verbatim>\<open>setupHTTPServer\<close> sets (the handler is the gin
  engine, which carries no data the service reads back). Timeouts in nanoseconds.\<close>

record Server =
  Addr :: string
  ReadTimeout :: int
  WriteTimeout :: int
  IdleTimeout :: int

text \<open>The objects behind the pointer fields of \<^verbatim>\<open>Service\<close> are opaque to main.go: each
  is a token, and the pointer is \<open>None\<close> (nil) or \<open>Some\<close> token. Their state is part
  of the world the collaborators act on.\<close>

datatype ConfigProvider = DefaultConfigProvider Config
datatype InterfaceSetupManager = InterfaceSetupManager
datatype InterfaceManager = InterfaceManager
datatype MessageSender = MessageSender
datatype Watchdog = Watchdog
datatype Monitor = Monitor
datatype APIHandler = APIHandler
datatype Logger = DefaultLogger

record Service =
  config :: "Config option"
  configProvider :: "ConfigProvider option"
  setupManager :: "InterfaceSetupManager option"
  interfaceManager :: "InterfaceManager option"
  messageSender :: "MessageSender option"
  watchdog :: "Watchdog option"
  monitor :: "Monitor option"
  apiHandler :: "APIHandler option"
  server :: "Server option"
  logger :: Logger

text \<open>A \<^verbatim>\<open>map[string]interface{}\<close> is a partial map from keys to the values main.go
  stores in it; \<open>'c\<close> is the type of the setup configuration, which main.go only
  passes on.\<close>

datatype 'c val =
    VString string
  | VBool bool
  | VNames "string list"
  | VState InterfaceState
  | VConfig 'c
  | VMap "string \<Rightarrow> 'c val option"

subsection \<open>Observable events\<close>

text \<open>One constructor per log line of main.go, with the values formatted into it.\<close>

datatype logmsg =
    L_Starting
  | L_Configuration
  | L_CanPorts "string list"
  | L_ServerPort string
  | L_SetupWarning error
  | L_Warning error
  | L_SettingUpAll
  | L_ListWarning error
  | L_Available "string list"
  | L_SettingUp string
  | L_SetupFailed string error
  | L_SetupOk string
  | L_State string int string bool
  | L_SetupSummary nat nat
  | L_WillRun string
  | L_Started
  | L_Stopping
  | L_WatchdogStopWarning error
  | L_ShutdownWarning error
  | L_Stopped
  | L_TearingDown
  | L_TeardownWarning string error
  | L_TeardownComplete
  | L_FatalInit error
  | L_FatalStart error
  | L_ShutdownSignal
  | L_ShutdownError error

text \<open>One constructor per collaborator method main.go calls, with the arguments that
  identify the call.\<close>

datatype call =
    PrintUsage_call
  | ParseConfig_call
  | ValidateConfig_call
  | ValidateSetupConfig_call
  | GetAvailableInterfaces_call
  | SetupInterfaceWithRetry_call string
  | GetInterfaceState_call string
  | InitializeAll_call
  | SetupRoutes_call
  | WatchdogStart_call Context
  | WatchdogStop_call
  | ServerShutdown_call Context
  | Cleanup_call
  | TeardownInterface_call string
  | GetSystemStatus_call
  | GetSetupConfig_call
  | AwaitSignal_call

text \<open>How a call ended: it returned without error, returned an error, or never
  returned (it blocked forever or panicked).\<close>

datatype res = Ok | Failed error | Pending

datatype goroutine = NodeFinder | ListenAndServe

datatype event =
    Printf logmsg
  | Call call res
  | Go goroutine

subsection \<open>Outcomes and sequencing\<close>

text \<open>A method either returns a value, the events it produced and the new state; or
  it does not return because a collaborator call did not; or it panics on a nil
  pointer that main.go itself dereferences.\<close>

datatype ('a, 's) outcome =
    Returned 'a "event list" 's
  | NoReturn "event list"
  | NilPanic "event list"

fun events :: "('a, 's) outcome \<Rightarrow> event list" where
  "events (Returned a evs s) = evs"
| "events (NoReturn evs) = evs"
| "events (NilPanic evs) = evs"

fun result :: "('a, 's) outcome \<Rightarrow> 'a option" where
  "result (Returned a evs s) = Some a"
| "result (NoReturn evs) = None"
| "result (NilPanic evs) = None"

fun after :: "event list \<Rightarrow> ('a, 's) outcome \<Rightarrow> ('a, 's) outcome" where
  "after pre (Returned a evs s) = Returned a (pre @ evs) s"
| "after pre (NoReturn evs) = NoReturn (pre @ evs)"
| "after pre (NilPanic evs) = NilPanic (pre @ evs)"

text \<open>Statement sequencing: the second statement runs only if the first returned.\<close>

definition and_then ::
  "('a, 's) outcome \<Rightarrow> ('a \<Rightarrow> 's \<Rightarrow> ('b, 's) outcome) \<Rightarrow> ('b, 's) outcome" where
  "and_then m k =
     (case m of
        Returned a evs s \<Rightarrow> after evs (k a s)
      | NoReturn evs \<Rightarrow> NoReturn evs
      | NilPanic evs \<Rightarrow> NilPanic evs)"

text \<open>\<^verbatim>\<open>for _, x := range xs { body }\<close> with the loop-carried variables \<open>acc\<close>.\<close>

primrec for_each ::
  "'a list \<Rightarrow> ('a \<Rightarrow> 'b \<Rightarrow> 's \<Rightarrow> ('b, 's) outcome) \<Rightarrow> 'b \<Rightarrow> 's \<Rightarrow> ('b, 's) outcome" where
  "for_each [] body acc s = Returned acc [] s"
| "for_each (x # xs) body acc s = and_then (body x acc s) (for_each xs body)"

subsection \<open>State and collaborators\<close>

record 'w state =
  svc :: Service
  world :: 'w

text \<open>The collaborators. A method takes its receiver (the possibly nil pointer held
  by the service), its arguments and the world; \<open>None\<close> means the call does not
  return. \<^verbatim>\<open>ParseConfig\<close> and \<^verbatim>\<open>ValidateConfig\<close> are methods of the parser that
  \<^verbatim>\<open>Initialize\<close> has just created. The constructors (\<^verbatim>\<open>NewInterfaceManager\<close> and the
  like) and the \<^verbatim>\<open>Default...Config\<close> functions are taken to allocate and return an
  object and do nothing else.\<close>

record ('w, 'c) collaborators =
  PrintUsage :: "'w \<Rightarrow> (unit \<times> 'w) option"
  ParseConfig :: "'w \<Rightarrow> ((error + Config) \<times> 'w) option"
  ValidateConfig :: "Config \<Rightarrow> 'w \<Rightarrow> (error option \<times> 'w) option"
  ValidateSetupConfig :: "InterfaceSetupManager option \<Rightarrow> 'w \<Rightarrow> (error option \<times> 'w) option"
  GetAvailableInterfaces ::
    "InterfaceSetupManager option \<Rightarrow> 'w \<Rightarrow> ((error + string list) \<times> 'w) option"
  SetupInterfaceWithRetry ::
    "InterfaceSetupManager option \<Rightarrow> string \<Rightarrow> 'w \<Rightarrow> (error option \<times> 'w) option"
  GetInterfaceState ::
    "InterfaceSetupManager option \<Rightarrow> string \<Rightarrow> 'w \<Rightarrow> ((error + InterfaceState) \<times> 'w) option"
  TeardownInterface ::
    "InterfaceSetupManager option \<Rightarrow> string \<Rightarrow> 'w \<Rightarrow> (error option \<times> 'w) option"
  GetSetupConfig :: "InterfaceSetupManager option \<Rightarrow> 'w \<Rightarrow> ('c \<times> 'w) option"
  InitializeAll :: "InterfaceManager option \<Rightarrow> 'w \<Rightarrow> (error option \<times> 'w) option"
  Cleanup :: "InterfaceManager option \<Rightarrow> 'w \<Rightarrow> (unit \<times> 'w) option"
  SetupRoutes :: "APIHandler option \<Rightarrow> 'w \<Rightarrow> (unit \<times> 'w) option"
  WatchdogStart :: "Watchdog option \<Rightarrow> Context \<Rightarrow> 'w \<Rightarrow> (error option \<times> 'w) option"
  WatchdogStop :: "Watchdog option \<Rightarrow> 'w \<Rightarrow> (error option \<times> 'w) option"
  ServerShutdown :: "Server \<Rightarrow> Context \<Rightarrow> 'w \<Rightarrow> (error option \<times> 'w) option"
  GetSystemStatus :: "Monitor option \<Rightarrow> 'w \<Rightarrow> (SystemStatus \<times> 'w) option"
  DurationString :: "int \<Rightarrow> string"
  AwaitSignal :: "'w \<Rightarrow> (unit \<times> 'w) option"

fun res_of_err :: "error option \<Rightarrow> res" where
  "res_of_err None = Ok"
| "res_of_err (Some e) = Failed e"

fun res_of_pair :: "error + 'a \<Rightarrow> res" where
  "res_of_pair (Inl e) = Failed e"
| "res_of_pair (Inr v) = Ok"

text \<open>A call of a collaborator: the event records the call and how it ended.\<close>

definition invoke ::
  "call \<Rightarrow> ('r \<Rightarrow> res) \<Rightarrow> ('w \<Rightarrow> ('r \<times> 'w) option) \<Rightarrow> 'w state \<Rightarrow> ('r, 'w state) outcome" where
  "invoke c rs f s =
     (case f (world s) of
        None \<Rightarrow> NoReturn [Call c Pending]
      | Some (r, w') \<Rightarrow> Returned r [Call c (rs r)] (s\<lparr>world := w'\<rparr>))"

text \<open>\<^verbatim>\<open>s.logger.Printf\<close>: the logger appends a line and returns (the logger is set
  by \<^verbatim>\<open>NewService\<close> and never nil). The lines \<^verbatim>\<open>main\<close> writes through the standard
  \<^verbatim>\<open>log\<close> package are events of the same kind.\<close>

definition logf :: "logmsg \<Rightarrow> 's \<Rightarrow> (unit, 's) outcome" where
  "logf m s = Returned () [Printf m] s"

text \<open>\<^verbatim>\<open>fmt\<close>'s rendering of a \<^verbatim>\<open>[]string\<close> under \<^verbatim>\<open>%v\<close>: the elements separated by
  one space, in brackets.\<close>

fun join_space :: "string list \<Rightarrow> string" where
  "join_space [] = []"
| "join_space [x] = x"
| "join_space (x # y # ys) = x @ '' '' @ join_space (y # ys)"

definition fmt_strings :: "string list \<Rightarrow> string" where
  "fmt_strings xs = ''['' @ join_space xs @ '']''"

subsection \<open>The service\<close>

definition NewService :: Service where
  "NewService =
     \<lparr>config = None, configProvider = None, setupManager = None, interfaceManager = None,
      messageSender = None, watchdog = None, monitor = None, apiHandler = None,
      server = None, logger = DefaultLogger\<rparr>"

text \<open>\<^verbatim>\<open>initializeComponents\<close> (lines 83-116).\<close>

definition initializeComponents ::
  "('w, 'c) collaborators \<Rightarrow> 'w state \<Rightarrow> (error option, 'w state) outcome" where
  "initializeComponents env s0 =
     (let s1 = s0\<lparr>svc := (svc s0)\<lparr>setupManager := Some InterfaceSetupManager\<rparr>\<rparr> in
      and_then (invoke ValidateSetupConfig_call res_of_err
                  (ValidateSetupConfig env (setupManager (svc s1))) s1) (\<lambda>err s.
        case err of
          Some e \<Rightarrow> Returned (Some (''setup configuration validation failed: '' @ e)) [] s
        | None \<Rightarrow>
            Returned None []
              (s\<lparr>svc := (svc s)\<lparr>interfaceManager := Some InterfaceManager,
                                messageSender := Some MessageSender,
                                watchdog := Some Watchdog,
                                monitor := Some Monitor,
                                apiHandler := Some APIHandler\<rparr>\<rparr>)))"

text \<open>The body of the loop of \<^verbatim>\<open>setupCanInterfaces\<close> (lines 133-150); the loop-carried
  variables are \<^verbatim>\<open>setupErrors\<close> and \<^verbatim>\<open>successCount\<close>. The counter is an \<^verbatim>\<open>int\<close>
  that grows by one per list element at most, so it stays below the length of the list
  and never wraps.\<close>

definition setup_body ::
  "('w, 'c) collaborators \<Rightarrow> string \<Rightarrow> string list \<times> nat \<Rightarrow> 'w state
     \<Rightarrow> (string list \<times> nat, 'w state) outcome" where
  "setup_body env ifName acc s0 =
     (case acc of (setupErrors, successCount) \<Rightarrow>
      and_then (logf (L_SettingUp ifName) s0) (\<lambda>_ s.
      and_then (invoke (SetupInterfaceWithRetry_call ifName) res_of_err
                  (SetupInterfaceWithRetry env (setupManager (svc s)) ifName) s) (\<lambda>err s.
        case err of
          Some e \<Rightarrow>
            and_then (logf (L_SetupFailed ifName e) s) (\<lambda>_ s.
            Returned (setupErrors @ [ifName @ '': '' @ e], successCount) [] s)
        | None \<Rightarrow>
            and_then (logf (L_SetupOk ifName) s) (\<lambda>_ s.
            and_then (invoke (GetInterfaceState_call ifName) res_of_pair
                        (GetInterfaceState env (setupManager (svc s)) ifName) s) (\<lambda>r s.
              case r of
                Inr st \<Rightarrow>
                  and_then (logf (L_State ifName (Bitrate st) (State st) (IsUp st)) s) (\<lambda>_ s.
                  Returned (setupErrors, successCount + 1) [] s)
              | Inl _ \<Rightarrow> Returned (setupErrors, successCount + 1) [] s)))))"

text \<open>The loop and what follows it (lines 130-162).\<close>

definition setup_loop ::
  "('w, 'c) collaborators \<Rightarrow> 'w state \<Rightarrow> (error option, 'w state) outcome" where
  "setup_loop env s0 =
     (case config (svc s0) of
        None \<Rightarrow> NilPanic []
      | Some cfg \<Rightarrow>
          and_then (for_each (CanPorts cfg) (setup_body env) ([], 0) s0) (\<lambda>acc s.
            case acc of (setupErrors, successCount) \<Rightarrow>
              if successCount = 0 then
                Returned (Some (''failed to setup any CAN interfaces: '' @ fmt_strings setupErrors)) [] s
              else
                and_then (logf (L_SetupSummary successCount (length (CanPorts cfg))) s) (\<lambda>_ s.
                  if length setupErrors > 0 then
                    Returned (Some (''partial setup failure: '' @ fmt_strings setupErrors)) [] s
                  else Returned None [] s)))"

text \<open>\<^verbatim>\<open>setupCanInterfaces\<close> (lines 119-163).\<close>

definition setupCanInterfaces ::
  "('w, 'c) collaborators \<Rightarrow> 'w state \<Rightarrow> (error option, 'w state) outcome" where
  "setupCanInterfaces env s0 =
     and_then (logf L_SettingUpAll s0) (\<lambda>_ s.
     and_then (invoke GetAvailableInterfaces_call res_of_pair
                 (GetAvailableInterfaces env (setupManager (svc s))) s) (\<lambda>r s.
     and_then (case r of
                 Inl err \<Rightarrow> logf (L_ListWarning err) s
               | Inr available \<Rightarrow> logf (L_Available available) s) (\<lambda>_ s.
     setup_loop env s)))"

text \<open>\<^verbatim>\<open>setupHTTPServer\<close> (lines 166-190): the gin engine is built, the routes are
  registered by the API handler, and the server value is stored.\<close>

definition setupHTTPServer ::
  "('w, 'c) collaborators \<Rightarrow> 'w state \<Rightarrow> (unit, 'w state) outcome" where
  "setupHTTPServer env s0 =
     and_then (invoke SetupRoutes_call (\<lambda>_. Ok) (SetupRoutes env (apiHandler (svc s0))) s0) (\<lambda>_ s.
       case config (svc s) of
         None \<Rightarrow> NilPanic []
       | Some cfg \<Rightarrow>
           (let serverAddr = '':'' @ Port cfg in
            and_then (logf (L_WillRun serverAddr)
                        (s\<lparr>svc := (svc s)\<lparr>server :=
                             Some \<lparr>Addr = serverAddr, ReadTimeout = 5 * Second,
                                   WriteTimeout = 10 * Second, IdleTimeout = 120 * Second\<rparr>\<rparr>\<rparr>))
              (\<lambda>_ s. Returned () [] s)))"

text \<open>\<^verbatim>\<open>Initialize\<close> (lines 38-80).\<close>

definition Initialize ::
  "('w, 'c) collaborators \<Rightarrow> 'w state \<Rightarrow> (error option, 'w state) outcome" where
  "Initialize env s0 =
     and_then (invoke ParseConfig_call res_of_pair (ParseConfig env) s0) (\<lambda>r s.
       case r of
         Inl err \<Rightarrow> Returned (Some (''failed to parse configuration: '' @ err)) [] s
       | Inr cfg \<Rightarrow>
     and_then (invoke ValidateConfig_call res_of_err (ValidateConfig env cfg) s) (\<lambda>err s.
       case err of
         Some e \<Rightarrow> Returned (Some (''configuration validation failed: '' @ e)) [] s
       | None \<Rightarrow>
     and_then (logf L_Starting
                 (s\<lparr>svc := (svc s)\<lparr>config := Some cfg,
                                   configProvider := Some (DefaultConfigProvider cfg)\<rparr>\<rparr>)) (\<lambda>_ s.
     and_then (logf L_Configuration s) (\<lambda>_ s.
     and_then (logf (L_CanPorts (CanPorts cfg)) s) (\<lambda>_ s.
     and_then (logf (L_ServerPort (Port cfg)) s) (\<lambda>_ s.
     and_then (initializeComponents env s) (\<lambda>err s.
       case err of
         Some e \<Rightarrow> Returned (Some (''failed to initialize components: '' @ e)) [] s
       | None \<Rightarrow>
     and_then (setupCanInterfaces env s) (\<lambda>err s.
     and_then (case err of
                 Some e \<Rightarrow> logf (L_SetupWarning e) s
               | None \<Rightarrow> Returned () [] s) (\<lambda>_ s.
     and_then (invoke InitializeAll_call res_of_err
                 (InitializeAll env (interfaceManager (svc s))) s) (\<lambda>err s.
     and_then (case err of
                 Some e \<Rightarrow> logf (L_Warning e) s
               | None \<Rightarrow> Returned () [] s) (\<lambda>_ s.
     and_then (setupHTTPServer env s) (\<lambda>_ s.
     Returned None [] s))))))))))))"

text \<open>\<^verbatim>\<open>Start\<close> (lines 193-212). The two \<^verbatim>\<open>go\<close> statements start goroutines and return
  at once; what the goroutines do happens beside this sequence of events, with one
  exception: the serving goroutine begins by reading \<^verbatim>\<open>s.server.Addr\<close> (line 204), and
  on a service without a server that nil dereference ends the whole process.\<close>

definition Start ::
  "('w, 'c) collaborators \<Rightarrow> Context \<Rightarrow> 'w state \<Rightarrow> (error option, 'w state) outcome" where
  "Start env ctx s0 =
     and_then (invoke (WatchdogStart_call ctx) res_of_err
                 (WatchdogStart env (watchdog (svc s0)) ctx) s0) (\<lambda>err s.
       case err of
         Some e \<Rightarrow> Returned (Some (''failed to start watchdog: '' @ e)) [] s
       | None \<Rightarrow>
           (case server (svc s) of
              None \<Rightarrow> NilPanic [Go NodeFinder, Go ListenAndServe]
            | Some srv \<Rightarrow>
                Returned None [Go NodeFinder, Go ListenAndServe, Printf L_Started] s))"

text \<open>The body of the loop of \<^verbatim>\<open>teardownCanInterfaces\<close> (lines 248-252).\<close>

definition teardown_body ::
  "('w, 'c) collaborators \<Rightarrow> string \<Rightarrow> unit \<Rightarrow> 'w state \<Rightarrow> (unit, 'w state) outcome" where
  "teardown_body env ifName u s0 =
     and_then (invoke (TeardownInterface_call ifName) res_of_err
                 (TeardownInterface env (setupManager (svc s0)) ifName) s0) (\<lambda>err s.
       case err of
         Some e \<Rightarrow> logf (L_TeardownWarning ifName e) s
       | None \<Rightarrow> Returned () [] s)"

text \<open>\<^verbatim>\<open>teardownCanInterfaces\<close> (lines 245-255).\<close>

definition teardownCanInterfaces ::
  "('w, 'c) collaborators \<Rightarrow> 'w state \<Rightarrow> (unit, 'w state) outcome" where
  "teardownCanInterfaces env s0 =
     and_then (logf L_TearingDown s0) (\<lambda>_ s.
       case config (svc s) of
         None \<Rightarrow> NilPanic []
       | Some cfg \<Rightarrow>
           and_then (for_each (CanPorts cfg) (teardown_body env) () s) (\<lambda>_ s.
           logf L_TeardownComplete s))"

text \<open>\<^verbatim>\<open>Stop\<close> (lines 215-242).\<close>

definition Stop ::
  "('w, 'c) collaborators \<Rightarrow> Context \<Rightarrow> 'w state \<Rightarrow> (error option, 'w state) outcome" where
  "Stop env ctx s0 =
     and_then (logf L_Stopping s0) (\<lambda>_ s.
     and_then (invoke WatchdogStop_call res_of_err (WatchdogStop env (watchdog (svc s))) s) (\<lambda>err s.
     and_then (case err of
                 Some e \<Rightarrow> logf (L_WatchdogStopWarning e) s
               | None \<Rightarrow> Returned () [] s) (\<lambda>_ s.
     and_then (case server (svc s) of
                 None \<Rightarrow> Returned () [] s
               | Some srv \<Rightarrow>
                   and_then (invoke (ServerShutdown_call ctx) res_of_err
                               (ServerShutdown env srv ctx) s) (\<lambda>err s.
                     case err of
                       Some e \<Rightarrow> logf (L_ShutdownWarning e) s
                     | None \<Rightarrow> Returned () [] s)) (\<lambda>_ s.
     and_then (case interfaceManager (svc s) of
                 None \<Rightarrow> Returned () [] s
               | Some im \<Rightarrow>
                   invoke Cleanup_call (\<lambda>_. Ok) (Cleanup env (interfaceManager (svc s))) s) (\<lambda>_ s.
     and_then (case setupManager (svc s) of
                 None \<Rightarrow> Returned () [] s
               | Some sm \<Rightarrow> teardownCanInterfaces env s) (\<lambda>_ s.
     and_then (logf L_Stopped s) (\<lambda>_ s.
     Returned None [] s)))))))"

text \<open>The body of the loop of \<^verbatim>\<open>GetStatus\<close> (lines 274-282); the loop-carried variable
  is the map \<^verbatim>\<open>interfaceStates\<close>.\<close>

definition status_body ::
  "('w, 'c) collaborators \<Rightarrow> string \<Rightarrow> (string \<Rightarrow> 'c val option) \<Rightarrow> 'w state
     \<Rightarrow> (string \<Rightarrow> 'c val option, 'w state) outcome" where
  "status_body env ifName interfaceStates s0 =
     and_then (invoke (GetInterfaceState_call ifName) res_of_pair
                 (GetInterfaceState env (setupManager (svc s0)) ifName) s0) (\<lambda>r s.
       case r of
         Inr st \<Rightarrow> Returned (interfaceStates(ifName \<mapsto> VState st)) [] s
       | Inl err \<Rightarrow>
           Returned (interfaceStates(ifName \<mapsto> VMap [''error'' \<mapsto> VString err])) [] s)"

text \<open>\<^verbatim>\<open>GetStatus\<close> (lines 258-293). The monitor's \<^verbatim>\<open>GetSystemStatus\<close> is taken to
  hand back a snapshot whose fields can be read; \<^verbatim>\<open>DurationString\<close> stands for
  \<^verbatim>\<open>time.Duration.String\<close>.\<close>

definition GetStatus ::
  "('w, 'c) collaborators \<Rightarrow> 'w state \<Rightarrow> (string \<Rightarrow> 'c val option, 'w state) outcome" where
  "GetStatus env s0 =
     (case monitor (svc s0) of
        None \<Rightarrow> Returned [''status'' \<mapsto> VString ''not_initialized''] [] s0
      | Some m \<Rightarrow>
          and_then (invoke GetSystemStatus_call (\<lambda>_. Ok)
                      (GetSystemStatus env (monitor (svc s0))) s0) (\<lambda>systemStatus s.
          and_then (case setupManager (svc s) of
                      None \<Rightarrow> Returned Map.empty [] s
                    | Some sm \<Rightarrow>
                        and_then (invoke GetSetupConfig_call (\<lambda>_. Ok)
                                    (GetSetupConfig env (setupManager (svc s))) s) (\<lambda>c s.
                          case config (svc s) of
                            None \<Rightarrow> NilPanic []
                          | Some cfg \<Rightarrow>
                              and_then (for_each (CanPorts cfg) (status_body env) Map.empty s)
                                (\<lambda>interfaceStates s.
                                  Returned [''config'' \<mapsto> VConfig c,
                                            ''interfaceStates'' \<mapsto> VMap interfaceStates] [] s)))
            (\<lambda>setupStatus s.
              Returned [''status'' \<mapsto> VString ''running'',
                        ''uptime'' \<mapsto> VString (DurationString env (SystemUptime systemStatus)),
                        ''activeInterfaces'' \<mapsto> VNames (ActiveInterfaces systemStatus),
                        ''watchdogRunning'' \<mapsto> VBool (Running (WatchdogStatus systemStatus)),
                        ''setup'' \<mapsto> VMap setupStatus] [] s)))"

text \<open>The shutdown context of \<^verbatim>\<open>main\<close> (line 329).\<close>

definition shutdownCtx :: Context where
  "shutdownCtx = WithTimeout Background (30 * Second)"

text \<open>\<^verbatim>\<open>main\<close> (lines 296-336), from the command-line arguments and the initial world
  to the exit status: \<^verbatim>\<open>log.Fatalf\<close> logs and exits with status 1. Waiting on the
  signal channel is a call that returns when a signal arrives.\<close>

definition main ::
  "('w, 'c) collaborators \<Rightarrow> string list \<Rightarrow> 'w \<Rightarrow> (nat, 'w state) outcome" where
  "main env args w =
     (let s0 = \<lparr>svc = NewService, world = w\<rparr> in
      if length args > 1 \<and> (args ! 1 = ''-h'' \<or> args ! 1 = ''--help'') then
        and_then (invoke PrintUsage_call (\<lambda>_. Ok) (PrintUsage env) s0) (\<lambda>_ s. Returned 0 [] s)
      else
        and_then (Initialize env s0) (\<lambda>err s.
          case err of
            Some e \<Rightarrow> Returned 1 [Printf (L_FatalInit e)] s
          | None \<Rightarrow>
        and_then (Start env (WithCancel Background) s) (\<lambda>err s.
          case err of
            Some e \<Rightarrow> Returned 1 [Printf (L_FatalStart e)] s
          | None \<Rightarrow>
        and_then (invoke AwaitSignal_call (\<lambda>_. Ok) (AwaitSignal env) s) (\<lambda>_ s.
        and_then (logf L_ShutdownSignal s) (\<lambda>_ s.
        and_then (Stop env shutdownCtx s) (\<lambda>err s.
          case err of
            Some e \<Rightarrow> Returned 0 [Printf (L_ShutdownError e)] s
          | None \<Rightarrow> Returned 0 [] s))))))"

subsection \<open>Projections of an event list\<close>

text \<open>The collaborator calls, in order.\<close>

fun calls :: "event list \<Rightarrow> call list" where
  "calls [] = []"
| "calls (Call c r # es) = c # calls es"
| "calls (e # es) = calls es"

text \<open>The interface names handed to \<^verbatim>\<open>SetupInterfaceWithRetry\<close>, in order.\<close>

fun setup_attempts :: "event list \<Rightarrow> string list" where
  "setup_attempts [] = []"
| "setup_attempts (Call (SetupInterfaceWithRetry_call n) r # es) = n # setup_attempts es"
| "setup_attempts (e # es) = setup_attempts es"

text \<open>The number of bring-ups that returned without error, and the entries
  \<^verbatim>\<open>name: error\<close> of those that returned an error.\<close>

fun succeeded :: "event list \<Rightarrow> nat" where
  "succeeded [] = 0"
| "succeeded (Call (SetupInterfaceWithRetry_call n) Ok # es) = Suc (succeeded es)"
| "succeeded (e # es) = succeeded es"

fun failures :: "event list \<Rightarrow> string list" where
  "failures [] = []"
| "failures (Call (SetupInterfaceWithRetry_call n) (Failed e) # es) = (n @ '': '' @ e) # failures es"
| "failures (e # es) = failures es"

subsection \<open>The shutdown steps\<close>

text \<open>The context a call is given, if it is given one.\<close>

fun context_of :: "call \<Rightarrow> Context option" where
  "context_of (WatchdogStart_call ctx) = Some ctx"
| "context_of (ServerShutdown_call ctx) = Some ctx"
| "context_of c = None"

text \<open>The shutdown steps of \<^verbatim>\<open>Stop\<close> in the order of the source text; a step is
  guarded by the nil check of its component, the watchdog's is not.\<close>

definition stop_steps :: "Context \<Rightarrow> Service \<Rightarrow> call list" where
  "stop_steps ctx sv =
     [WatchdogStop_call]
     @ (case server sv of None \<Rightarrow> [] | Some srv \<Rightarrow> [ServerShutdown_call ctx])
     @ (case interfaceManager sv of None \<Rightarrow> [] | Some im \<Rightarrow> [Cleanup_call])
     @ (case setupManager sv of
          None \<Rightarrow> []
        | Some sm \<Rightarrow>
            (case config sv of
               None \<Rightarrow> []
             | Some cfg \<Rightarrow> map TeardownInterface_call (CanPorts cfg)))"

subsection \<open>Specifications of outcomes\<close>

text \<open>The outcome is a return whose value, events and state satisfy \<open>Q\<close>.\<close>

definition returns_with ::
  "('a, 's) outcome \<Rightarrow> ('a \<Rightarrow> event list \<Rightarrow> 's \<Rightarrow> bool) \<Rightarrow> bool" where
  "returns_with m Q = (\<exists>a evs s. m = Returned a evs s \<and> Q a evs s)"

text \<open>An event other than a call that has not returned.\<close>

fun finished :: "event \<Rightarrow> bool" where
  "finished (Call c Pending) = False"
| "finished e = True"

text \<open>The outcome made the calls \<open>xs\<close> in this order, as far as it got: its calls are
  a prefix of \<open>xs\<close>, only its last event can be a call that did not return, and if it
  returned it made all of \<open>xs\<close> and its state satisfies \<open>I\<close>.\<close>

definition runs_in_order :: "call list \<Rightarrow> ('s \<Rightarrow> bool) \<Rightarrow> ('a, 's) outcome \<Rightarrow> bool" where
  "runs_in_order xs I m =
     (prefix (calls (events m)) xs \<and> list_all finished (butlast (events m))
      \<and> (\<forall>a evs s. m = Returned a evs s \<longrightarrow> calls evs = xs \<and> list_all finished evs \<and> I s))"

subsection \<open>Auxiliary notions for Initialize\<close>

text \<open>Lines 64-79 of \<^verbatim>\<open>Initialize\<close>: what follows the initialization of the
  components.\<close>

definition Initialize_tail ::
  "('w, 'c) collaborators \<Rightarrow> 'w state \<Rightarrow> (error option, 'w state) outcome" where
  "Initialize_tail env s0 =
     and_then (setupCanInterfaces env s0) (\<lambda>err s.
     and_then (case err of
                 Some e \<Rightarrow> logf (L_SetupWarning e) s
               | None \<Rightarrow> Returned () [] s) (\<lambda>_ s.
     and_then (invoke InitializeAll_call res_of_err
                 (InitializeAll env (interfaceManager (svc s))) s) (\<lambda>err s.
     and_then (case err of
                 Some e \<Rightarrow> logf (L_Warning e) s
               | None \<Rightarrow> Returned () [] s) (\<lambda>_ s.
     and_then (setupHTTPServer env s) (\<lambda>_ s.
     Returned None [] s)))))"

text \<open>The events of \<^verbatim>\<open>Initialize\<close> up to the call of \<^verbatim>\<open>initializeComponents\<close>, and
  the service once its components are initialized.\<close>

definition init_prefix :: "Config \<Rightarrow> event list" where
  "init_prefix cfg =
     [Call ParseConfig_call Ok, Call ValidateConfig_call Ok, Printf L_Starting,
      Printf L_Configuration, Printf (L_CanPorts (CanPorts cfg)), Printf (L_ServerPort (Port cfg))]"

definition with_components :: "Config \<Rightarrow> Service \<Rightarrow> Service" where
  "with_components cfg sv =
     sv\<lparr>config := Some cfg, configProvider := Some (DefaultConfigProvider cfg),
        setupManager := Some InterfaceSetupManager, interfaceManager := Some InterfaceManager,
        messageSender := Some MessageSender, watchdog := Some Watchdog,
        monitor := Some Monitor, apiHandler := Some APIHandler\<rparr>"

text \<open>The events of the setup loop: log lines, the listing, bring-ups, state queries.\<close>

fun setup_event :: "event \<Rightarrow> bool" where
  "setup_event (Printf m) = True"
| "setup_event (Call GetAvailableInterfaces_call r) = True"
| "setup_event (Call (SetupInterfaceWithRetry_call n) r) = True"
| "setup_event (Call (GetInterfaceState_call n) r) = True"
| "setup_event e = False"

text \<open>A call that operates on an interface: listing, bring-up, state query, teardown,
  opening and closing of handles.\<close>

fun touches_interface :: "event \<Rightarrow> bool" where
  "touches_interface (Call GetAvailableInterfaces_call r) = True"
| "touches_interface (Call (SetupInterfaceWithRetry_call n) r) = True"
| "touches_interface (Call (GetInterfaceState_call n) r) = True"
| "touches_interface (Call (TeardownInterface_call n) r) = True"
| "touches_interface (Call InitializeAll_call r) = True"
| "touches_interface (Call Cleanup_call r) = True"
| "touches_interface e = False"

text \<open>No interface is operated on before the setup configuration has been validated
  successfully.\<close>

fun validated_first :: "event list \<Rightarrow> bool" where
  "validated_first [] = True"
| "validated_first (e # es) =
     (if e = Call ValidateSetupConfig_call Ok then True
      else \<not> touches_interface e \<and> validated_first es)"

text \<open>Every event of the outcome satisfies \<open>Q\<close>; the state of an outcome that returned
  satisfies \<open>P\<close>.\<close>

definition emits_only :: "(event \<Rightarrow> bool) \<Rightarrow> ('a, 's) outcome \<Rightarrow> bool" where
  "emits_only Q m = (\<forall>e \<in> set (events m). Q e)"

definition keeps :: "('s \<Rightarrow> bool) \<Rightarrow> ('a, 's) outcome \<Rightarrow> bool" where
  "keeps P m = (\<forall>a evs s. m = Returned a evs s \<longrightarrow> P s)"

subsection \<open>Auxiliary notions for GetStatus\<close>

text \<open>The results of the state queries for the interface \<open>n\<close>, in order.\<close>

fun queries :: "string \<Rightarrow> event list \<Rightarrow> res list" where
  "queries n [] = []"
| "queries n (Call (GetInterfaceState_call m) r # es) =
     (if m = n then r # queries n es else queries n es)"
| "queries n (e # es) = queries n es"

text \<open>A service with a monitor has a configuration: \<^verbatim>\<open>Initialize\<close> stores the
  configuration before it creates the components.\<close>

definition consistent :: "Service \<Rightarrow> bool" where
  "consistent sv = (monitor sv \<noteq> None \<longrightarrow> config sv \<noteq> None)"

subsection \<open>A concrete deployment\<close>

text \<open>Three configured interfaces; the world is the list of interfaces that are up.
  Bring-up, state query and teardown fail for the names in \<open>bad\<close>, and opening
  handles reports an error when some interface is not up.\<close>

definition demo_config :: Config where
  "demo_config = \<lparr>CanPorts = [''can0'', ''can1'', ''can2''], Port = ''8080''\<rparr>"

definition demo_env :: "string list \<Rightarrow> (string list, nat) collaborators" where
  "demo_env bad =
     \<lparr>PrintUsage = (\<lambda>w. Some ((), w)),
      ParseConfig = (\<lambda>w. Some (Inr demo_config, w)),
      ValidateConfig = (\<lambda>cfg w. Some (None, w)),
      ValidateSetupConfig = (\<lambda>sm w. Some (None, w)),
      GetAvailableInterfaces = (\<lambda>sm w. Some (Inr [''can0'', ''can1'', ''can2''], w)),
      SetupInterfaceWithRetry = (\<lambda>sm n w.
        Some (if n \<in> set bad then (Some ''no such device'', w) else (None, n # w))),
      GetInterfaceState = (\<lambda>sm n w.
        Some (if n \<in> set bad then Inl ''no such device''
              else Inr \<lparr>Bitrate = 500000, State = (if n \<in> set w then ''UP'' else ''DOWN''),
                        IsUp = (n \<in> set w)\<rparr>, w)),
      TeardownInterface = (\<lambda>sm n w.
        Some (if n \<in> set bad then (Some ''device busy'', w) else (None, removeAll n w))),
      GetSetupConfig = (\<lambda>sm w. Some (3, w)),
      InitializeAll = (\<lambda>im w.
        Some (if set (CanPorts demo_config) \<subseteq> set w then None else Some ''no handle'', w)),
      Cleanup = (\<lambda>im w. Some ((), w)),
      SetupRoutes = (\<lambda>h w. Some ((), w)),
      WatchdogStart = (\<lambda>wd ctx w. Some (None, w)),
      WatchdogStop = (\<lambda>wd w. Some (None, w)),
      ServerShutdown = (\<lambda>srv ctx w. Some (None, w)),
      GetSystemStatus = (\<lambda>m w.
        Some (\<lparr>SystemUptime = 5 * Second, ActiveInterfaces = w,
               WatchdogStatus = \<lparr>Running = True\<rparr>\<rparr>, w)),
      DurationString = (\<lambda>d. ''5s''),
      AwaitSignal = (\<lambda>w. Some ((), w))\<rparr>"

text \<open>The service as \<^verbatim>\<open>Initialize\<close> leaves it in this deployment.\<close>

definition demo_service :: Service where
  "demo_service =
     \<lparr>config = Some demo_config, configProvider = Some (DefaultConfigProvider demo_config),
      setupManager = Some InterfaceSetupManager, interfaceManager = Some InterfaceManager,
      messageSender = Some MessageSender, watchdog = Some Watchdog, monitor = Some Monitor,
      apiHandler = Some APIHandler,
      server = Some \<lparr>Addr = '':8080'', ReadTimeout = 5 * Second, WriteTimeout = 10 * Second,
                      IdleTimeout = 120 * Second\<rparr>,
      logger = DefaultLogger\<rparr>"

text \<open>The same deployment on a host where the interfaces cannot be listed.\<close>

definition demo_env_no_listing :: "string list \<Rightarrow> (string list, nat) collaborators" where
  "demo_env_no_listing bad =
     (demo_env bad)\<lparr>GetAvailableInterfaces := (\<lambda>sm w. Some (Inl ''netlink unavailable'', w))\<rparr>"

text \<open>The deployment with a shutdown in which the watchdog reports an error, the HTTP
  server runs into the deadline and the interfaces in \<open>bad\<close> cannot be torn down.\<close>

definition demo_env_failing_stop :: "string list \<Rightarrow> (string list, nat) collaborators" where
  "demo_env_failing_stop bad =
     (demo_env bad)\<lparr>WatchdogStop := (\<lambda>wd w. Some (Some ''watchdog not running'', w)),
                    ServerShutdown := (\<lambda>srv ctx w. Some (Some ''context deadline exceeded'', w))\<rparr>"

text \<open>The deployment with a watchdog whose \<^verbatim>\<open>Stop\<close> waits for a polling loop that
  never exits.\<close>

definition demo_env_hung_watchdog :: "(string list, nat) collaborators" where
  "demo_env_hung_watchdog = (demo_env [])\<lparr>WatchdogStop := (\<lambda>wd w. None)\<rparr>"

text \<open>The deployment with a setup configuration that does not validate.\<close>

definition demo_env_bad_setup_config :: "(string list, nat) collaborators" where
  "demo_env_bad_setup_config =
     (demo_env [])\<lparr>ValidateSetupConfig := (\<lambda>sm w. Some (Some ''retry count out of range'', w))\<rparr>"

section \<open>Properties\<close>

subsection \<open>Sequencing and loops\<close>

lemma after_Nil [simp]: "after [] m = m"
  by (cases m) simp_all

lemma after_after [simp]: "after xs (after ys m) = after (xs @ ys) m"
  by (cases m) simp_all

lemma events_after [simp]: "events (after pre m) = pre @ events m"
  by (cases m) simp_all

lemma result_after [simp]: "result (after pre m) = result m"
  by (cases m) simp_all

lemma and_then_simps [simp]:
  "and_then (Returned a evs s) k = after evs (k a s)"
  "and_then (NoReturn evs) k = NoReturn evs"
  "and_then (NilPanic evs) k = NilPanic evs"
  by (simp_all add: and_then_def)

lemma and_then_after [simp]: "and_then (after pre m) k = after pre (and_then m k)"
  by (cases m) simp_all

lemma and_then_logf [simp]: "and_then (logf m s) k = after [Printf m] (k () s)"
  by (simp add: logf_def)

lemma calls_append [simp]: "calls (xs @ ys) = calls xs @ calls ys"
  by (induction xs rule: calls.induct) simp_all

lemma setup_attempts_append [simp]:
  "setup_attempts (xs @ ys) = setup_attempts xs @ setup_attempts ys"
  by (induction xs rule: setup_attempts.induct) simp_all

lemma succeeded_append [simp]: "succeeded (xs @ ys) = succeeded xs + succeeded ys"
  by (induction xs rule: succeeded.induct) simp_all

lemma failures_append [simp]: "failures (xs @ ys) = failures xs @ failures ys"
  by (induction xs rule: failures.induct) simp_all

lemma invoke_None: "f (world s) = None \<Longrightarrow> invoke c rs f s = NoReturn [Call c Pending]"
  by (simp add: invoke_def)

lemma invoke_Some:
  "f (world s) = Some (r, w') \<Longrightarrow> invoke c rs f s = Returned r [Call c (rs r)] (s\<lparr>world := w'\<rparr>)"
  by (simp add: invoke_def)

text \<open>The loop rule: an invariant over the elements done, the loop-carried variables,
  the events so far and the state, kept by a body that returns, holds at the end.\<close>

lemma for_each_rule:
  assumes "P ys acc pre s"
    and "\<And>x ys acc pre s. P ys acc pre s \<Longrightarrow>
           \<exists>acc' evs s'. body x acc s = Returned acc' evs s' \<and> P (ys @ [x]) acc' (pre @ evs) s'"
  shows "\<exists>acc' evs s'. for_each xs body acc s = Returned acc' evs s' \<and> P (ys @ xs) acc' (pre @ evs) s'"
  using assms(1)
proof (induction xs arbitrary: ys acc pre s)
  case Nil
  then show ?case by simp
next
  case (Cons x xs)
  from assms(2)[OF Cons.prems, of x] obtain acc1 evs1 s1 where
    b: "body x acc s = Returned acc1 evs1 s1" and p: "P (ys @ [x]) acc1 (pre @ evs1) s1"
    by blast
  from Cons.IH[OF p] obtain acc2 evs2 s2 where
    r: "for_each xs body acc1 s1 = Returned acc2 evs2 s2"
    and q: "P ((ys @ [x]) @ xs) acc2 ((pre @ evs1) @ evs2) s2"
    by blast
  show ?case using b r q by simp
qed

text \<open>Rules for outcomes that return.\<close>

lemma returns_and_then:
  assumes "returns_with m Q1"
    and "\<And>a evs s. Q1 a evs s \<Longrightarrow> returns_with (k a s) (\<lambda>b evs' s'. Q b (evs @ evs') s')"
  shows "returns_with (and_then m k) Q"
  using assms unfolding returns_with_def by fastforce

lemma returns_Returned: "Q a evs s \<Longrightarrow> returns_with (Returned a evs s) Q"
  by (simp add: returns_with_def)

lemma returns_logf: "Q () [Printf m] s \<Longrightarrow> returns_with (logf m s) Q"
  by (simp add: returns_with_def logf_def)

lemma returns_invoke:
  assumes "\<forall>w. f w \<noteq> None"
    and "\<And>r w'. Q r [Call c (rs r)] (s\<lparr>world := w'\<rparr>)"
  shows "returns_with (invoke c rs f s) Q"
proof -
  from assms(1) obtain r w' where "f (world s) = Some (r, w')"
    by (metis option.exhaust surj_pair)
  then show ?thesis using assms(2) by (simp add: returns_with_def invoke_Some)
qed

lemma returns_weaken:
  "returns_with m Q \<Longrightarrow> (\<And>a evs s. Q a evs s \<Longrightarrow> Q' a evs s) \<Longrightarrow> returns_with m Q'"
  unfolding returns_with_def by blast

subsection \<open>Teardown\<close>

lemma teardown_body_returns:
  assumes "\<forall>r n w. TeardownInterface env r n w \<noteq> None"
  shows "\<exists>evs s'. teardown_body env x u s = Returned () evs s' \<and> svc s' = svc s
           \<and> calls evs = [TeardownInterface_call x]"
proof -
  from assms obtain err w' where
    "TeardownInterface env (setupManager (svc s)) x (world s) = Some (err, w')"
    by (metis option.exhaust surj_pair)
  then show ?thesis
    by (cases err) (simp_all add: teardown_body_def invoke_Some logf_def)
qed

lemma teardown_loop_returns:
  fixes s :: "'w state"
  assumes "\<forall>r n w. TeardownInterface env r n w \<noteq> None"
  shows "\<exists>evs s'. for_each ports (teardown_body env) () s = Returned () evs s'
           \<and> svc s' = svc s \<and> calls evs = map TeardownInterface_call ports"
proof -
  let ?P = "\<lambda>ys (u::unit) pre (s'::'w state).
              svc s' = svc s \<and> calls pre = map TeardownInterface_call ys"
  have "\<exists>acc' evs s'. for_each ports (teardown_body env) () s = Returned acc' evs s'
          \<and> ?P ([] @ ports) acc' ([] @ evs) s'"
  proof (rule for_each_rule[where P = ?P])
    show "?P [] () [] s" by simp
  next
    fix x ys and acc :: unit and pre and s1 :: "'w state"
    assume p: "?P ys acc pre s1"
    from teardown_body_returns[OF assms, of x acc s1] obtain evs s2 where
      "teardown_body env x acc s1 = Returned () evs s2" "svc s2 = svc s1"
      "calls evs = [TeardownInterface_call x]" by blast
    with p show "\<exists>acc' evs s'. teardown_body env x acc s1 = Returned acc' evs s'
        \<and> ?P (ys @ [x]) acc' (pre @ evs) s'" by simp
  qed
  then show ?thesis by auto
qed

lemma teardownCanInterfaces_returns:
  fixes s :: "'w state"
  assumes "config (svc s) = Some cfg"
    and "\<forall>r n w. TeardownInterface env r n w \<noteq> None"
  shows "\<exists>evs s'. teardownCanInterfaces env s = Returned () evs s' \<and> svc s' = svc s
           \<and> calls evs = map TeardownInterface_call (CanPorts cfg)"
proof -
  from teardown_loop_returns[OF assms(2), of "CanPorts cfg" s] obtain evs s' where
    "for_each (CanPorts cfg) (teardown_body env) () s = Returned () evs s'"
    "svc s' = svc s" "calls evs = map TeardownInterface_call (CanPorts cfg)" by blast
  then show ?thesis using assms(1)
    by (simp add: teardownCanInterfaces_def logf_def)
qed

text \<open>
  Claim C4. Whatever list of interfaces is configured, and whichever of the teardown
  calls return an error, \<^verbatim>\<open>teardownCanInterfaces\<close> calls \<^verbatim>\<open>TeardownInterface\<close> once
  for every configured name, in the configured order, and returns; the hypothesis is
  that each call returns at all, with or without an error.
\<close>

theorem teardown_attempts_every_interface:
  fixes s :: "'w state"
  assumes "config (svc s) = Some cfg"
    and "\<forall>r n w. TeardownInterface env r n w \<noteq> None"
  shows "\<exists>evs s'. teardownCanInterfaces env s = Returned () evs s'
           \<and> calls evs = map TeardownInterface_call (CanPorts cfg)"
  using teardownCanInterfaces_returns[OF assms] by blast

text \<open>The teardown of \<open>can1\<close> fails; \<open>can0\<close> before it and \<open>can2\<close> after it are torn
  down all the same.\<close>

theorem teardown_attempts_every_interface_witness:
  "config (svc \<lparr>svc = demo_service, world = [''can2'', ''can1'', ''can0'']\<rparr>) = Some demo_config
   \<and> (\<forall>r n w. TeardownInterface (demo_env [''can1'']) r n w \<noteq> None)
   \<and> (\<exists>evs s'. teardownCanInterfaces (demo_env [''can1''])
                  \<lparr>svc = demo_service, world = [''can2'', ''can1'', ''can0'']\<rparr> = Returned () evs s'
          \<and> calls evs = [TeardownInterface_call ''can0'', TeardownInterface_call ''can1'',
                          TeardownInterface_call ''can2''])
   \<and> events (teardownCanInterfaces (demo_env [''can1''])
               \<lparr>svc = demo_service, world = [''can2'', ''can1'', ''can0'']\<rparr>)
       = [Printf L_TearingDown,
          Call (TeardownInterface_call ''can0'') Ok,
          Call (TeardownInterface_call ''can1'') (Failed ''device busy''),
          Printf (L_TeardownWarning ''can1'' ''device busy''),
          Call (TeardownInterface_call ''can2'') Ok,
          Printf L_TeardownComplete]"
proof -
  have h1: "config (svc \<lparr>svc = demo_service, world = [''can2'', ''can1'', ''can0'']\<rparr>) = Some demo_config"
    by (simp add: demo_service_def)
  have h2: "\<forall>r n w. TeardownInterface (demo_env [''can1'']) r n w \<noteq> None"
    by (simp add: demo_env_def)
  have ev: "events (teardownCanInterfaces (demo_env [''can1''])
               \<lparr>svc = demo_service, world = [''can2'', ''can1'', ''can0'']\<rparr>)
       = [Printf L_TearingDown,
          Call (TeardownInterface_call ''can0'') Ok,
          Call (TeardownInterface_call ''can1'') (Failed ''device busy''),
          Printf (L_TeardownWarning ''can1'' ''device busy''),
          Call (TeardownInterface_call ''can2'') Ok,
          Printf L_TeardownComplete]"
    by (simp add: teardownCanInterfaces_def teardown_body_def invoke_def demo_env_def
        demo_service_def demo_config_def logf_def)
  show ?thesis
    using teardown_attempts_every_interface[OF h1 h2] h1 h2 ev
    by (simp add: demo_config_def)
qed

subsection \<open>The startup setup loop\<close>

lemma setup_body_returns:
  assumes "\<forall>r n w. SetupInterfaceWithRetry env r n w \<noteq> None"
    and "\<forall>r n w. GetInterfaceState env r n w \<noteq> None"
  shows "\<exists>evs s'. setup_body env x (errs, n) s = Returned (errs @ failures evs, n + succeeded evs) evs s'
           \<and> svc s' = svc s \<and> setup_attempts evs = [x]"
proof -
  from assms(1) obtain err w1 where
    a: "SetupInterfaceWithRetry env (setupManager (svc s)) x (world s) = Some (err, w1)"
    by (metis option.exhaust surj_pair)
  show ?thesis
  proof (cases err)
    case (Some e)
    with a show ?thesis
      by (simp add: setup_body_def invoke_Some)
  next
    case None
    from assms(2) obtain r w2 where
      b: "GetInterfaceState env (setupManager (svc s)) x w1 = Some (r, w2)"
      by (metis option.exhaust surj_pair)
    from a b None show ?thesis
      by (cases r) (simp_all add: setup_body_def invoke_Some)
  qed
qed

lemma setup_loop_returns:
  fixes s :: "'w state"
  assumes "config (svc s) = Some cfg"
    and "\<forall>r n w. SetupInterfaceWithRetry env r n w \<noteq> None"
    and "\<forall>r n w. GetInterfaceState env r n w \<noteq> None"
  shows "\<exists>r evs s'. setup_loop env s = Returned r evs s' \<and> svc s' = svc s
           \<and> setup_attempts evs = CanPorts cfg
           \<and> (succeeded evs = 0 \<longrightarrow>
                r = Some (''failed to setup any CAN interfaces: '' @ fmt_strings (failures evs)))
           \<and> (succeeded evs \<noteq> 0 \<longrightarrow> failures evs \<noteq> [] \<longrightarrow>
                r = Some (''partial setup failure: '' @ fmt_strings (failures evs)))
           \<and> (succeeded evs \<noteq> 0 \<longrightarrow> failures evs = [] \<longrightarrow> r = None)"
proof -
  let ?P = "\<lambda>ys (acc :: string list \<times> nat) pre (s'::'w state).
              svc s' = svc s \<and> acc = (failures pre, succeeded pre) \<and> setup_attempts pre = ys"
  have "\<exists>acc' evs s'. for_each (CanPorts cfg) (setup_body env) ([], 0) s = Returned acc' evs s'
          \<and> ?P ([] @ CanPorts cfg) acc' ([] @ evs) s'"
  proof (rule for_each_rule[where P = ?P])
    show "?P [] ([], 0) [] s" by simp
  next
    fix x ys and acc :: "string list \<times> nat" and pre and s1 :: "'w state"
    assume p: "?P ys acc pre s1"
    from setup_body_returns[OF assms(2,3), of x "failures pre" "succeeded pre" s1]
    obtain evs s2 where
      "setup_body env x (failures pre, succeeded pre) s1
         = Returned (failures pre @ failures evs, succeeded pre + succeeded evs) evs s2"
      "svc s2 = svc s1" "setup_attempts evs = [x]" by blast
    with p show "\<exists>acc' evs s'. setup_body env x acc s1 = Returned acc' evs s'
        \<and> ?P (ys @ [x]) acc' (pre @ evs) s'" by simp
  qed
  then obtain evs s' where
    l: "for_each (CanPorts cfg) (setup_body env) ([], 0) s = Returned (failures evs, succeeded evs) evs s'"
    and sv: "svc s' = svc s" and at: "setup_attempts evs = CanPorts cfg" by auto
  show ?thesis using assms(1) l sv at
    by (simp add: setup_loop_def logf_def)
qed

lemma setupCanInterfaces_returns:
  fixes s :: "'w state"
  assumes "config (svc s) = Some cfg"
    and "\<forall>r w. GetAvailableInterfaces env r w \<noteq> None"
    and "\<forall>r n w. SetupInterfaceWithRetry env r n w \<noteq> None"
    and "\<forall>r n w. GetInterfaceState env r n w \<noteq> None"
  shows "\<exists>r evs s'. setupCanInterfaces env s = Returned r evs s' \<and> svc s' = svc s
           \<and> setup_attempts evs = CanPorts cfg
           \<and> (succeeded evs = 0 \<longrightarrow>
                r = Some (''failed to setup any CAN interfaces: '' @ fmt_strings (failures evs)))
           \<and> (succeeded evs \<noteq> 0 \<longrightarrow> failures evs \<noteq> [] \<longrightarrow>
                r = Some (''partial setup failure: '' @ fmt_strings (failures evs)))
           \<and> (succeeded evs \<noteq> 0 \<longrightarrow> failures evs = [] \<longrightarrow> r = None)"
proof -
  from assms(2) obtain a w1 where
    g: "GetAvailableInterfaces env (setupManager (svc s)) (world s) = Some (a, w1)"
    by (metis option.exhaust surj_pair)
  have c: "config (svc (s\<lparr>world := w1\<rparr>)) = Some cfg" using assms(1) by simp
  from setup_loop_returns[OF c assms(3,4)] obtain r evs s' where
    "setup_loop env (s\<lparr>world := w1\<rparr>) = Returned r evs s'" "svc s' = svc s"
    "setup_attempts evs = CanPorts cfg"
    "succeeded evs = 0 \<longrightarrow>
       r = Some (''failed to setup any CAN interfaces: '' @ fmt_strings (failures evs))"
    "succeeded evs \<noteq> 0 \<longrightarrow> failures evs \<noteq> [] \<longrightarrow>
       r = Some (''partial setup failure: '' @ fmt_strings (failures evs))"
    "succeeded evs \<noteq> 0 \<longrightarrow> failures evs = [] \<longrightarrow> r = None"
    by auto
  with g show ?thesis
    by (cases a) (simp_all add: setupCanInterfaces_def invoke_Some logf_def)
qed

text \<open>
  Claim C6. \<^verbatim>\<open>setupCanInterfaces\<close> calls \<^verbatim>\<open>SetupInterfaceWithRetry\<close> once for each
  entry of the configured list, one after the other in the configured order, whichever
  of these calls return an error; the hypothesis is that the calls of the loop return
  at all, with or without an error.
\<close>

theorem setup_attempts_every_interface_once:
  fixes s :: "'w state"
  assumes "config (svc s) = Some cfg"
    and "\<forall>r w. GetAvailableInterfaces env r w \<noteq> None"
    and "\<forall>r n w. SetupInterfaceWithRetry env r n w \<noteq> None"
    and "\<forall>r n w. GetInterfaceState env r n w \<noteq> None"
  shows "\<exists>r evs s'. setupCanInterfaces env s = Returned r evs s'
           \<and> setup_attempts evs = CanPorts cfg"
  using setupCanInterfaces_returns[OF assms] by blast

text \<open>The bring-up of \<open>can0\<close> fails; \<open>can1\<close> and \<open>can2\<close> are attempted after it.\<close>

theorem setup_attempts_every_interface_once_witness:
  "config (svc \<lparr>svc = demo_service, world = []\<rparr>) = Some demo_config
   \<and> (\<forall>r w. GetAvailableInterfaces (demo_env [''can0'']) r w \<noteq> None)
   \<and> (\<forall>r n w. SetupInterfaceWithRetry (demo_env [''can0'']) r n w \<noteq> None)
   \<and> (\<forall>r n w. GetInterfaceState (demo_env [''can0'']) r n w \<noteq> None)
   \<and> (\<exists>r evs s'. setupCanInterfaces (demo_env [''can0'']) \<lparr>svc = demo_service, world = []\<rparr>
                     = Returned r evs s'
          \<and> setup_attempts evs = [''can0'', ''can1'', ''can2''])
   \<and> events (setupCanInterfaces (demo_env [''can0'']) \<lparr>svc = demo_service, world = []\<rparr>)
       = [Printf L_SettingUpAll,
          Call GetAvailableInterfaces_call Ok,
          Printf (L_Available [''can0'', ''can1'', ''can2'']),
          Printf (L_SettingUp ''can0''),
          Call (SetupInterfaceWithRetry_call ''can0'') (Failed ''no such device''),
          Printf (L_SetupFailed ''can0'' ''no such device''),
          Printf (L_SettingUp ''can1''),
          Call (SetupInterfaceWithRetry_call ''can1'') Ok,
          Printf (L_SetupOk ''can1''),
          Call (GetInterfaceState_call ''can1'') Ok,
          Printf (L_State ''can1'' 500000 ''UP'' True),
          Printf (L_SettingUp ''can2''),
          Call (SetupInterfaceWithRetry_call ''can2'') Ok,
          Printf (L_SetupOk ''can2''),
          Call (GetInterfaceState_call ''can2'') Ok,
          Printf (L_State ''can2'' 500000 ''UP'' True),
          Printf (L_SetupSummary 2 3)]"
proof -
  have h1: "config (svc \<lparr>svc = demo_service, world = []\<rparr>) = Some demo_config"
    by (simp add: demo_service_def)
  have h2: "\<forall>r w. GetAvailableInterfaces (demo_env [''can0'']) r w \<noteq> None"
    by (simp add: demo_env_def)
  have h3: "\<forall>r n w. SetupInterfaceWithRetry (demo_env [''can0'']) r n w \<noteq> None"
    by (simp add: demo_env_def)
  have h4: "\<forall>r n w. GetInterfaceState (demo_env [''can0'']) r n w \<noteq> None"
    by (simp add: demo_env_def)
  have ev: "events (setupCanInterfaces (demo_env [''can0'']) \<lparr>svc = demo_service, world = []\<rparr>)
       = [Printf L_SettingUpAll,
          Call GetAvailableInterfaces_call Ok,
          Printf (L_Available [''can0'', ''can1'', ''can2'']),
          Printf (L_SettingUp ''can0''),
          Call (SetupInterfaceWithRetry_call ''can0'') (Failed ''no such device''),
          Printf (L_SetupFailed ''can0'' ''no such device''),
          Printf (L_SettingUp ''can1''),
          Call (SetupInterfaceWithRetry_call ''can1'') Ok,
          Printf (L_SetupOk ''can1''),
          Call (GetInterfaceState_call ''can1'') Ok,
          Printf (L_State ''can1'' 500000 ''UP'' True),
          Printf (L_SettingUp ''can2''),
          Call (SetupInterfaceWithRetry_call ''can2'') Ok,
          Printf (L_SetupOk ''can2''),
          Call (GetInterfaceState_call ''can2'') Ok,
          Printf (L_State ''can2'' 500000 ''UP'' True),
          Printf (L_SetupSummary 2 3)]"
    by (simp add: setupCanInterfaces_def setup_loop_def setup_body_def invoke_def demo_env_def
        demo_service_def demo_config_def logf_def)
  show ?thesis
    using setup_attempts_every_interface_once[OF h1 h2 h3 h4] h1 h2 h3 h4 ev
    by (simp add: demo_config_def)
qed

lemma setup_loop_ignores_listing:
  "setup_loop (env\<lparr>GetAvailableInterfaces := f\<rparr>) s = setup_loop env s"
proof -
  have "setup_body (env\<lparr>GetAvailableInterfaces := f\<rparr>) = setup_body env"
    by (intro ext) (simp add: setup_body_def cong: option.case_cong sum.case_cong)
  then show ?thesis by (simp add: setup_loop_def split: option.splits)
qed

text \<open>
  Claim C8. When \<^verbatim>\<open>GetAvailableInterfaces\<close> returns an error, \<^verbatim>\<open>setupCanInterfaces\<close>
  logs it, goes on to attempt the bring-up of every configured interface, and returns
  what it would return for any other outcome of the listing that leaves the same
  world behind.
\<close>

theorem listing_failure_is_not_fatal:
  fixes s :: "'w state"
  assumes "config (svc s) = Some cfg"
    and "GetAvailableInterfaces env (setupManager (svc s)) (world s) = Some (Inl e, w')"
    and "\<forall>r n w. SetupInterfaceWithRetry env r n w \<noteq> None"
    and "\<forall>r n w. GetInterfaceState env r n w \<noteq> None"
  shows "\<exists>r evs s'. setupCanInterfaces env s = Returned r evs s'
           \<and> Printf (L_ListWarning e) \<in> set evs
           \<and> setup_attempts evs = CanPorts cfg
           \<and> (\<forall>a. result (setupCanInterfaces (env\<lparr>GetAvailableInterfaces := \<lambda>sm w. Some (a, w')\<rparr>) s)
                    = Some r)"
proof -
  have c: "config (svc (s\<lparr>world := w'\<rparr>)) = Some cfg" using assms(1) by simp
  from setup_loop_returns[OF c assms(3,4)] obtain r evs s' where
    l: "setup_loop env (s\<lparr>world := w'\<rparr>) = Returned r evs s'"
    and at: "setup_attempts evs = CanPorts cfg" by auto
  have 1: "setupCanInterfaces env s
             = Returned r ([Printf L_SettingUpAll, Call GetAvailableInterfaces_call (Failed e),
                            Printf (L_ListWarning e)] @ evs) s'"
    using assms(2) l by (simp add: setupCanInterfaces_def invoke_Some logf_def)
  have 2: "result (setupCanInterfaces (env\<lparr>GetAvailableInterfaces := \<lambda>sm w. Some (a, w')\<rparr>) s) = Some r"
    for a
    using l by (cases a) (simp_all add: setupCanInterfaces_def invoke_def logf_def setup_loop_ignores_listing)
  show ?thesis using 1 2 at by simp
qed

theorem listing_failure_is_not_fatal_witness:
  "config (svc \<lparr>svc = demo_service, world = []\<rparr>) = Some demo_config
   \<and> GetAvailableInterfaces (demo_env_no_listing [''can1''])
        (setupManager (svc \<lparr>svc = demo_service, world = []\<rparr>))
        (world \<lparr>svc = demo_service, world = []\<rparr>) = Some (Inl ''netlink unavailable'', [])
   \<and> (\<forall>r n w. SetupInterfaceWithRetry (demo_env_no_listing [''can1'']) r n w \<noteq> None)
   \<and> (\<forall>r n w. GetInterfaceState (demo_env_no_listing [''can1'']) r n w \<noteq> None)
   \<and> (\<exists>r evs s'. setupCanInterfaces (demo_env_no_listing [''can1''])
                     \<lparr>svc = demo_service, world = []\<rparr> = Returned r evs s'
          \<and> Printf (L_ListWarning ''netlink unavailable'') \<in> set evs
          \<and> setup_attempts evs = [''can0'', ''can1'', ''can2'']
          \<and> (\<forall>a. result (setupCanInterfaces
                            ((demo_env_no_listing [''can1''])
                               \<lparr>GetAvailableInterfaces := \<lambda>sm w. Some (a, [])\<rparr>)
                            \<lparr>svc = demo_service, world = []\<rparr>) = Some r))
   \<and> result (setupCanInterfaces (demo_env_no_listing [''can1''])
               \<lparr>svc = demo_service, world = []\<rparr>)
       = Some (Some ''partial setup failure: [can1: no such device]'')"
proof -
  have h1: "config (svc \<lparr>svc = demo_service, world = []\<rparr>) = Some demo_config"
    by (simp add: demo_service_def)
  have h2: "GetAvailableInterfaces (demo_env_no_listing [''can1''])
        (setupManager (svc \<lparr>svc = demo_service, world = []\<rparr>))
        (world \<lparr>svc = demo_service, world = []\<rparr>) = Some (Inl ''netlink unavailable'', [])"
    by (simp add: demo_env_no_listing_def)
  have h3: "\<forall>r n w. SetupInterfaceWithRetry (demo_env_no_listing [''can1'']) r n w \<noteq> None"
    by (simp add: demo_env_no_listing_def demo_env_def)
  have h4: "\<forall>r n w. GetInterfaceState (demo_env_no_listing [''can1'']) r n w \<noteq> None"
    by (simp add: demo_env_no_listing_def demo_env_def)
  have rs: "result (setupCanInterfaces (demo_env_no_listing [''can1''])
               \<lparr>svc = demo_service, world = []\<rparr>)
       = Some (Some ''partial setup failure: [can1: no such device]'')"
    by (simp add: setupCanInterfaces_def setup_loop_def setup_body_def invoke_def
        demo_env_no_listing_def demo_env_def demo_service_def demo_config_def logf_def
        fmt_strings_def)
  show ?thesis
    using listing_failure_is_not_fatal[OF h1 h2 h3 h4] h1 h2 h3 h4 rs
    by (simp add: demo_config_def)
qed

subsection \<open>Shutdown\<close>

lemma Stop_returns:
  fixes s :: "'w state"
  assumes wd: "\<forall>r w. WatchdogStop env r w \<noteq> None"
    and sh: "\<forall>srv c w. ServerShutdown env srv c w \<noteq> None"
    and cl: "\<forall>r w. Cleanup env r w \<noteq> None"
    and td: "\<forall>r n w. TeardownInterface env r n w \<noteq> None"
    and cf: "setupManager (svc s) \<noteq> None \<longrightarrow> config (svc s) \<noteq> None"
  shows "returns_with (Stop env ctx s)
           (\<lambda>r evs s'. r = None \<and> svc s' = svc s \<and> calls evs = stop_steps ctx (svc s))"
  unfolding Stop_def
proof (rule returns_and_then[where ?Q1.0 = "\<lambda>_ evs s'. s' = s \<and> evs = [Printf L_Stopping]"],
    goal_cases)
  case 1
  show ?case by (rule returns_logf) simp
next
  case (2 a evs s0)
  then have s0: "s0 = s" and evs: "evs = [Printf L_Stopping]" by auto
  show ?case unfolding s0 evs
  proof (rule returns_and_then[where ?Q1.0 =
        "\<lambda>r evs s'. svc s' = svc s \<and> evs = [Call WatchdogStop_call (res_of_err r)]"], goal_cases)
    case 1
    show ?case by (rule returns_invoke) (use wd in simp_all)
  next
    case (2 e1 evs1 s1)
    then have sv1: "svc s1 = svc s" and evs1: "calls evs1 = [WatchdogStop_call]" by auto
    show ?case
    proof (rule returns_and_then[where ?Q1.0 = "\<lambda>_ evs s'. svc s' = svc s \<and> calls evs = []"],
        goal_cases)
      case 1
      show ?case using sv1 by (cases e1) (auto intro: returns_logf returns_Returned)
    next
      case (2 a2 evs2 s2)
      then have sv2: "svc s2 = svc s" and evs2: "calls evs2 = []" by auto
      show ?case
      proof (rule returns_and_then[where ?Q1.0 = "\<lambda>_ evs s'. svc s' = svc s \<and> calls evs =
          (case server (svc s) of None \<Rightarrow> [] | Some srv \<Rightarrow> [ServerShutdown_call ctx])"],
          goal_cases)
        case 1
        show ?case
        proof (cases "server (svc s2)")
          case None
          then show ?thesis using sv2 by (auto intro: returns_Returned)
        next
          case (Some srv)
          have "returns_with
                  (and_then (invoke (ServerShutdown_call ctx) res_of_err
                               (ServerShutdown env srv ctx) s2) (\<lambda>err s.
                     case err of
                       Some e \<Rightarrow> logf (L_ShutdownWarning e) s
                     | None \<Rightarrow> Returned () [] s))
                  (\<lambda>_ evs s'. svc s' = svc s \<and> calls evs = [ServerShutdown_call ctx])"
          proof (rule returns_and_then[where ?Q1.0 =
                "\<lambda>r evs s'. svc s' = svc s \<and> calls evs = [ServerShutdown_call ctx]"], goal_cases)
            case 1
            show ?case by (rule returns_invoke) (use sh sv2 in simp_all)
          next
            case (2 e evs s')
            then show ?case by (cases e) (auto intro: returns_logf returns_Returned)
          qed
          then show ?thesis using Some sv2 by simp
        qed
      next
        case (2 a3 evs3 s3)
        then have sv3: "svc s3 = svc s" and evs3: "calls evs3 =
          (case server (svc s) of None \<Rightarrow> [] | Some srv \<Rightarrow> [ServerShutdown_call ctx])" by auto
        show ?case
        proof (rule returns_and_then[where ?Q1.0 = "\<lambda>_ evs s'. svc s' = svc s \<and> calls evs =
            (case interfaceManager (svc s) of None \<Rightarrow> [] | Some im \<Rightarrow> [Cleanup_call])"],
            goal_cases)
          case 1
          show ?case
          proof (cases "interfaceManager (svc s3)")
            case None
            then show ?thesis using sv3 by (auto intro: returns_Returned)
          next
            case (Some im)
            have "returns_with (invoke Cleanup_call (\<lambda>_. Ok) (Cleanup env (interfaceManager (svc s3))) s3)
                    (\<lambda>_ evs s'. svc s' = svc s \<and> calls evs = [Cleanup_call])"
              by (rule returns_invoke) (use cl sv3 in simp_all)
            then show ?thesis using Some sv3 by simp
          qed
        next
          case (2 a4 evs4 s4)
          then have sv4: "svc s4 = svc s" and evs4: "calls evs4 =
            (case interfaceManager (svc s) of None \<Rightarrow> [] | Some im \<Rightarrow> [Cleanup_call])" by auto
          show ?case
          proof (rule returns_and_then[where ?Q1.0 = "\<lambda>_ evs s'. svc s' = svc s \<and> calls evs =
              (case setupManager (svc s) of None \<Rightarrow> []
               | Some sm \<Rightarrow> (case config (svc s) of None \<Rightarrow> []
                             | Some cfg \<Rightarrow> map TeardownInterface_call (CanPorts cfg)))"],
              goal_cases)
            case 1
            show ?case
            proof (cases "setupManager (svc s4)")
              case None
              then show ?thesis using sv4 by (auto intro: returns_Returned)
            next
              case (Some sm)
              with cf sv4 obtain cfg where c: "config (svc s4) = Some cfg" by auto
              from teardownCanInterfaces_returns[OF c td] Some c sv4 show ?thesis
                by (auto simp: returns_with_def)
            qed
          next
            case (2 a5 evs5 s5)
            then show ?case using evs1 evs2 evs3 evs4
              by (auto simp: returns_with_def logf_def stop_steps_def)
          qed
        qed
      qed
    qed
  qed
qed

text \<open>
  Claim C3. Whatever the watchdog stop, the HTTP server shutdown and the teardown of
  each interface return, error or not, \<^verbatim>\<open>Stop\<close> goes through all its steps and
  returns nil: the calls it makes are the shutdown steps of the service, which depend
  on the components that exist and not on any result. The hypotheses are that each
  call returns at all, and that a service with a setup manager has a configuration
  (as every service that \<^verbatim>\<open>Initialize\<close> has worked on does).
\<close>

theorem stop_steps_survive_failures:
  fixes s :: "'w state"
  assumes "\<forall>r w. WatchdogStop env r w \<noteq> None"
    and "\<forall>srv c w. ServerShutdown env srv c w \<noteq> None"
    and "\<forall>r w. Cleanup env r w \<noteq> None"
    and "\<forall>r n w. TeardownInterface env r n w \<noteq> None"
    and "setupManager (svc s) \<noteq> None \<longrightarrow> config (svc s) \<noteq> None"
  shows "\<exists>evs s'. Stop env ctx s = Returned None evs s' \<and> calls evs = stop_steps ctx (svc s)"
  using Stop_returns[OF assms, of ctx] by (auto simp: returns_with_def)

text \<open>The watchdog stop fails, the HTTP shutdown fails, the teardown of \<open>can0\<close>
  fails: the cleanup and the teardown of \<open>can1\<close> and \<open>can2\<close> still run.\<close>

theorem stop_steps_survive_failures_witness:
  "(\<forall>r w. WatchdogStop (demo_env_failing_stop [''can0'']) r w \<noteq> None)
   \<and> (\<forall>srv c w. ServerShutdown (demo_env_failing_stop [''can0'']) srv c w \<noteq> None)
   \<and> (\<forall>r w. Cleanup (demo_env_failing_stop [''can0'']) r w \<noteq> None)
   \<and> (\<forall>r n w. TeardownInterface (demo_env_failing_stop [''can0'']) r n w \<noteq> None)
   \<and> setupManager (svc \<lparr>svc = demo_service, world = [''can2'', ''can1'']\<rparr>) \<noteq> None
   \<and> config (svc \<lparr>svc = demo_service, world = [''can2'', ''can1'']\<rparr>) \<noteq> None
   \<and> (\<exists>evs s'. Stop (demo_env_failing_stop [''can0'']) shutdownCtx
                    \<lparr>svc = demo_service, world = [''can2'', ''can1'']\<rparr> = Returned None evs s'
          \<and> calls evs = [WatchdogStop_call, ServerShutdown_call shutdownCtx, Cleanup_call,
                          TeardownInterface_call ''can0'', TeardownInterface_call ''can1'',
                          TeardownInterface_call ''can2''])
   \<and> events (Stop (demo_env_failing_stop [''can0'']) shutdownCtx
               \<lparr>svc = demo_service, world = [''can2'', ''can1'']\<rparr>)
       = [Printf L_Stopping,
          Call WatchdogStop_call (Failed ''watchdog not running''),
          Printf (L_WatchdogStopWarning ''watchdog not running''),
          Call (ServerShutdown_call shutdownCtx) (Failed ''context deadline exceeded''),
          Printf (L_ShutdownWarning ''context deadline exceeded''),
          Call Cleanup_call Ok,
          Printf L_TearingDown,
          Call (TeardownInterface_call ''can0'') (Failed ''device busy''),
          Printf (L_TeardownWarning ''can0'' ''device busy''),
          Call (TeardownInterface_call ''can1'') Ok,
          Call (TeardownInterface_call ''can2'') Ok,
          Printf L_TeardownComplete,
          Printf L_Stopped]"
proof -
  have h1: "\<forall>r w. WatchdogStop (demo_env_failing_stop [''can0'']) r w \<noteq> None"
    by (simp add: demo_env_failing_stop_def)
  have h2: "\<forall>srv c w. ServerShutdown (demo_env_failing_stop [''can0'']) srv c w \<noteq> None"
    by (simp add: demo_env_failing_stop_def)
  have h3: "\<forall>r w. Cleanup (demo_env_failing_stop [''can0'']) r w \<noteq> None"
    by (simp add: demo_env_failing_stop_def demo_env_def)
  have h4: "\<forall>r n w. TeardownInterface (demo_env_failing_stop [''can0'']) r n w \<noteq> None"
    by (simp add: demo_env_failing_stop_def demo_env_def)
  have h5: "setupManager (svc \<lparr>svc = demo_service, world = [''can2'', ''can1'']\<rparr>) \<noteq> None
        \<longrightarrow> config (svc \<lparr>svc = demo_service, world = [''can2'', ''can1'']\<rparr>) \<noteq> None"
    by (simp add: demo_service_def)
  have ev: "events (Stop (demo_env_failing_stop [''can0'']) shutdownCtx
               \<lparr>svc = demo_service, world = [''can2'', ''can1'']\<rparr>)
       = [Printf L_Stopping,
          Call WatchdogStop_call (Failed ''watchdog not running''),
          Printf (L_WatchdogStopWarning ''watchdog not running''),
          Call (ServerShutdown_call shutdownCtx) (Failed ''context deadline exceeded''),
          Printf (L_ShutdownWarning ''context deadline exceeded''),
          Call Cleanup_call Ok,
          Printf L_TearingDown,
          Call (TeardownInterface_call ''can0'') (Failed ''device busy''),
          Printf (L_TeardownWarning ''can0'' ''device busy''),
          Call (TeardownInterface_call ''can1'') Ok,
          Call (TeardownInterface_call ''can2'') Ok,
          Printf L_TeardownComplete,
          Printf L_Stopped]"
    by (simp add: Stop_def teardownCanInterfaces_def teardown_body_def invoke_def
        demo_env_failing_stop_def demo_env_def demo_service_def demo_config_def logf_def)
  show ?thesis
    using stop_steps_survive_failures[OF h1 h2 h3 h4 h5, of shutdownCtx] h1 h2 h3 h4 ev
    by (simp add: stop_steps_def demo_service_def demo_config_def)
qed

subsection \<open>The order of the shutdown steps\<close>

lemma runs_in_order_and_then:
  assumes "runs_in_order xs I m"
    and "\<And>a s. I s \<Longrightarrow> runs_in_order ys J (k a s)"
  shows "runs_in_order (xs @ ys) J (and_then m k)"
proof (cases m)
  case (Returned a evs s)
  with assms(1) have 1: "calls evs = xs" "list_all finished evs" "I s"
    by (auto simp: runs_in_order_def)
  from assms(2)[OF 1(3), of a] have 2: "runs_in_order ys J (k a s)" .
  show ?thesis
  proof (cases "k a s")
    case R: (Returned b evs' s')
    with 1 2 Returned show ?thesis
      by (auto simp: runs_in_order_def butlast_append list_all_iff dest: in_set_butlastD)
  next
    case N: (NoReturn evs')
    with 1 2 Returned show ?thesis
      by (auto simp: runs_in_order_def butlast_append list_all_iff dest: in_set_butlastD)
  next
    case P: (NilPanic evs')
    with 1 2 Returned show ?thesis
      by (auto simp: runs_in_order_def butlast_append list_all_iff dest: in_set_butlastD)
  qed
next
  case (NoReturn evs)
  with assms(1) show ?thesis by (auto simp: runs_in_order_def)
next
  case (NilPanic evs)
  with assms(1) show ?thesis by (auto simp: runs_in_order_def)
qed

lemma runs_in_order_Returned:
  "calls evs = xs \<Longrightarrow> list_all finished evs \<Longrightarrow> I s \<Longrightarrow> runs_in_order xs I (Returned a evs s)"
  by (auto simp: runs_in_order_def list_all_iff dest: in_set_butlastD)

lemma runs_in_order_logf: "I s \<Longrightarrow> runs_in_order [] I (logf m s)"
  by (simp add: runs_in_order_def logf_def)

lemma runs_in_order_NilPanic: "runs_in_order xs I (NilPanic [])"
  by (simp add: runs_in_order_def)

lemma runs_in_order_invoke:
  assumes "\<And>w'. I (s\<lparr>world := w'\<rparr>)" and "\<And>r. rs r \<noteq> Pending"
  shows "runs_in_order [c] I (invoke c rs f s)"
proof (cases "f (world s)")
  case None
  then show ?thesis by (simp add: runs_in_order_def invoke_None)
next
  case (Some p)
  obtain r w' where "p = (r, w')" by (cases p)
  with Some have "invoke c rs f s = Returned r [Call c (rs r)] (s\<lparr>world := w'\<rparr>)"
    by (simp add: invoke_Some)
  moreover have "finished (Call c (rs r))" using assms(2)[of r] by (cases "rs r") simp_all
  ultimately show ?thesis using assms(1) by (simp add: runs_in_order_def)
qed

lemma res_of_err_not_Pending: "res_of_err r \<noteq> Pending"
  by (cases r) simp_all

lemma runs_in_order_for_each:
  assumes "\<And>x acc s. I s \<Longrightarrow> runs_in_order (g x) I (body x acc s)"
    and "I s"
  shows "runs_in_order (concat (map g xs)) I (for_each xs body acc s)"
  using assms(2)
proof (induction xs arbitrary: acc s)
  case Nil
  then show ?case by (simp add: runs_in_order_Returned)
next
  case (Cons x xs)
  have "runs_in_order (g x @ concat (map g xs)) I
          (and_then (body x acc s) (for_each xs body))"
    by (rule runs_in_order_and_then[OF assms(1)[OF Cons.prems]]) (rule Cons.IH)
  then show ?case by simp
qed

lemma teardown_body_in_order:
  "svc s = v \<Longrightarrow>
   runs_in_order [TeardownInterface_call x] (\<lambda>s'. svc s' = v) (teardown_body env x u s)"
  unfolding teardown_body_def
proof (rule runs_in_order_and_then[where xs = "[TeardownInterface_call x]" and ys = "[]"
      and I = "\<lambda>s'. svc s' = v", simplified], goal_cases)
  case 1
  then show ?case by (intro runs_in_order_invoke) (simp_all add: res_of_err_not_Pending)
next
  case (2 a s')
  then show ?case by (cases a) (simp_all add: runs_in_order_logf runs_in_order_Returned)
qed

lemma teardownCanInterfaces_in_order:
  assumes "svc s = v"
  shows "runs_in_order (case config v of None \<Rightarrow> []
                        | Some cfg \<Rightarrow> map TeardownInterface_call (CanPorts cfg))
           (\<lambda>s'. svc s' = v) (teardownCanInterfaces env s)"
proof (cases "config v")
  case None
  with assms show ?thesis
    by (simp add: teardownCanInterfaces_def runs_in_order_def)
next
  case (Some cfg)
  have l: "runs_in_order (concat (map (\<lambda>x. [TeardownInterface_call x]) (CanPorts cfg)))
          (\<lambda>s'. svc s' = v) (for_each (CanPorts cfg) (teardown_body env) () s)"
    by (rule runs_in_order_for_each) (simp_all add: teardown_body_in_order assms)
  have c: "concat (map (\<lambda>x. [TeardownInterface_call x]) (CanPorts cfg))
            = map TeardownInterface_call (CanPorts cfg)"
    by (induction "CanPorts cfg") simp_all
  have "runs_in_order (map TeardownInterface_call (CanPorts cfg) @ []) (\<lambda>s'. svc s' = v)
          (and_then (for_each (CanPorts cfg) (teardown_body env) () s) (\<lambda>_ s. logf L_TeardownComplete s))"
    by (rule runs_in_order_and_then[OF l[unfolded c]]) (simp add: runs_in_order_logf)
  then have "runs_in_order (map TeardownInterface_call (CanPorts cfg)) (\<lambda>s'. svc s' = v)
          (after [Printf L_TearingDown]
             (and_then (for_each (CanPorts cfg) (teardown_body env) () s) (\<lambda>_ s. logf L_TeardownComplete s)))"
    by (cases "and_then (for_each (CanPorts cfg) (teardown_body env) () s) (\<lambda>_ s. logf L_TeardownComplete s)")
       (auto simp: runs_in_order_def)
  with Some assms show ?thesis
    by (simp add: teardownCanInterfaces_def)
qed

lemma shutdown_step_in_order:
  assumes "svc s = v"
  shows "runs_in_order (case server v of None \<Rightarrow> [] | Some srv \<Rightarrow> [ServerShutdown_call ctx])
           (\<lambda>s'. svc s' = v)
           (case server (svc s) of
              None \<Rightarrow> Returned () [] s
            | Some srv \<Rightarrow>
                and_then (invoke (ServerShutdown_call ctx) res_of_err
                            (ServerShutdown env srv ctx) s) (\<lambda>err s.
                  case err of
                    Some e \<Rightarrow> logf (L_ShutdownWarning e) s
                  | None \<Rightarrow> Returned () [] s))"
proof (cases "server v")
  case None
  with assms show ?thesis by (simp add: runs_in_order_Returned)
next
  case (Some srv)
  have "runs_in_order ([ServerShutdown_call ctx] @ []) (\<lambda>s'. svc s' = v)
          (and_then (invoke (ServerShutdown_call ctx) res_of_err
                            (ServerShutdown env srv ctx) s) (\<lambda>err s.
                  case err of
                    Some e \<Rightarrow> logf (L_ShutdownWarning e) s
                  | None \<Rightarrow> Returned () [] s))"
  proof (rule runs_in_order_and_then[where I = "\<lambda>s'. svc s' = v"], goal_cases)
    case 1
    show ?case by (intro runs_in_order_invoke) (simp_all add: res_of_err_not_Pending assms)
  next
    case (2 a s')
    then show ?case by (cases a) (simp_all add: runs_in_order_logf runs_in_order_Returned)
  qed
  with Some assms show ?thesis by simp
qed

lemma cleanup_step_in_order:
  assumes "svc s = v"
  shows "runs_in_order (case interfaceManager v of None \<Rightarrow> [] | Some im \<Rightarrow> [Cleanup_call])
           (\<lambda>s'. svc s' = v)
           (case interfaceManager (svc s) of
              None \<Rightarrow> Returned () [] s
            | Some im \<Rightarrow> invoke Cleanup_call (\<lambda>_. Ok) (Cleanup env (interfaceManager (svc s))) s)"
proof (cases "interfaceManager v")
  case None
  with assms show ?thesis by (simp add: runs_in_order_Returned)
next
  case (Some im)
  have "runs_in_order [Cleanup_call] (\<lambda>s'. svc s' = v)
          (invoke Cleanup_call (\<lambda>_. Ok) (Cleanup env (interfaceManager (svc s))) s)"
    by (intro runs_in_order_invoke) (simp_all add: assms)
  with Some assms show ?thesis by simp
qed

lemma teardown_step_in_order:
  assumes "svc s = v"
  shows "runs_in_order (case setupManager v of
                          None \<Rightarrow> []
                        | Some sm \<Rightarrow>
                            (case config v of
                               None \<Rightarrow> []
                             | Some cfg \<Rightarrow> map TeardownInterface_call (CanPorts cfg)))
           (\<lambda>s'. svc s' = v)
           (case setupManager (svc s) of
              None \<Rightarrow> Returned () [] s
            | Some sm \<Rightarrow> teardownCanInterfaces env s)"
proof (cases "setupManager v")
  case None
  with assms show ?thesis by (simp add: runs_in_order_Returned)
next
  case (Some sm)
  with assms teardownCanInterfaces_in_order[OF assms, of env] show ?thesis by simp
qed

lemma Stop_in_order:
  fixes s :: "'w state"
  shows "runs_in_order (stop_steps ctx (svc s)) (\<lambda>s'. svc s' = svc s) (Stop env ctx s)"
proof -
  let ?I = "\<lambda>s'::'w state. svc s' = svc s"
  have "runs_in_order
          ([] @ [WatchdogStop_call] @ []
           @ (case server (svc s) of None \<Rightarrow> [] | Some srv \<Rightarrow> [ServerShutdown_call ctx])
           @ (case interfaceManager (svc s) of None \<Rightarrow> [] | Some im \<Rightarrow> [Cleanup_call])
           @ (case setupManager (svc s) of
                None \<Rightarrow> []
              | Some sm \<Rightarrow>
                  (case config (svc s) of
                     None \<Rightarrow> []
                   | Some cfg \<Rightarrow> map TeardownInterface_call (CanPorts cfg)))
           @ [] @ [])
          ?I (Stop env ctx s)"
    unfolding Stop_def
  proof (rule runs_in_order_and_then[where I = ?I], goal_cases)
    case 1
    show ?case by (simp add: runs_in_order_logf)
  next
    case (2 a0 s0)
    show ?case
    proof (rule runs_in_order_and_then[where I = ?I], goal_cases)
      case 1
      show ?case using 2 by (intro runs_in_order_invoke) (simp_all add: res_of_err_not_Pending)
    next
      case (2 a1 s1)
      show ?case
      proof (rule runs_in_order_and_then[where I = ?I], goal_cases)
        case 1
        show ?case using 2
          by (cases a1) (simp_all add: runs_in_order_logf runs_in_order_Returned)
      next
        case (2 a2 s2)
        show ?case
        proof (rule runs_in_order_and_then[where I = ?I], goal_cases)
          case 1
          show ?case using 2 by (rule shutdown_step_in_order)
        next
          case (2 a3 s3)
          show ?case
          proof (rule runs_in_order_and_then[where I = ?I], goal_cases)
            case 1
            show ?case using 2 by (rule cleanup_step_in_order)
          next
            case (2 a4 s4)
            show ?case
            proof (rule runs_in_order_and_then[where I = ?I], goal_cases)
              case 1
              show ?case using 2 by (rule teardown_step_in_order)
            next
              case (2 a5 s5)
              show ?case
              proof (rule runs_in_order_and_then[where I = ?I], goal_cases)
                case 1
                show ?case using 2 by (simp add: runs_in_order_logf)
              next
                case (2 a6 s6)
                then show ?case by (simp add: runs_in_order_Returned)
              qed
            qed
          qed
        qed
      qed
    qed
  qed
  then show ?thesis by (simp add: stop_steps_def)
qed

text \<open>
  Claim C2. On a service with its HTTP server, interface manager, setup manager and
  configuration in place, and with any collaborators whatever, the calls \<^verbatim>\<open>Stop\<close>
  makes are, in this order, the watchdog stop, the HTTP server shutdown, the handle
  cleanup and the teardown of the configured interfaces: they are an initial part of
  that sequence, every call before the last event has returned (a step starts only
  after the one before it has returned), and when \<^verbatim>\<open>Stop\<close> returns they are the whole
  sequence.
\<close>

theorem stop_runs_its_steps_in_order:
  fixes s :: "'w state"
  assumes "server (svc s) = Some srv"
    and "interfaceManager (svc s) = Some im"
    and "setupManager (svc s) = Some sm"
    and "config (svc s) = Some cfg"
  shows "prefix (calls (events (Stop env ctx s)))
           ([WatchdogStop_call, ServerShutdown_call ctx, Cleanup_call]
            @ map TeardownInterface_call (CanPorts cfg))
         \<and> list_all finished (butlast (events (Stop env ctx s)))
         \<and> (result (Stop env ctx s) \<noteq> None \<longrightarrow>
              calls (events (Stop env ctx s))
                = [WatchdogStop_call, ServerShutdown_call ctx, Cleanup_call]
                  @ map TeardownInterface_call (CanPorts cfg))"
proof -
  have "stop_steps ctx (svc s)
          = [WatchdogStop_call, ServerShutdown_call ctx, Cleanup_call]
            @ map TeardownInterface_call (CanPorts cfg)"
    using assms by (simp add: stop_steps_def)
  with Stop_in_order[of ctx s env] show ?thesis
    by (cases "Stop env ctx s") (auto simp: runs_in_order_def)
qed

theorem stop_runs_its_steps_in_order_witness:
  "server (svc \<lparr>svc = demo_service, world = [''can1'']\<rparr>)
     = Some \<lparr>Addr = '':8080'', ReadTimeout = 5 * Second, WriteTimeout = 10 * Second,
             IdleTimeout = 120 * Second\<rparr>
   \<and> interfaceManager (svc \<lparr>svc = demo_service, world = [''can1'']\<rparr>) = Some InterfaceManager
   \<and> setupManager (svc \<lparr>svc = demo_service, world = [''can1'']\<rparr>) = Some InterfaceSetupManager
   \<and> config (svc \<lparr>svc = demo_service, world = [''can1'']\<rparr>) = Some demo_config
   \<and> result (Stop (demo_env []) shutdownCtx \<lparr>svc = demo_service, world = [''can1'']\<rparr>) \<noteq> None
   \<and> list_all finished
        (butlast (events (Stop (demo_env []) shutdownCtx \<lparr>svc = demo_service, world = [''can1'']\<rparr>)))
   \<and> calls (events (Stop (demo_env []) shutdownCtx \<lparr>svc = demo_service, world = [''can1'']\<rparr>))
       = [WatchdogStop_call, ServerShutdown_call shutdownCtx, Cleanup_call,
          TeardownInterface_call ''can0'', TeardownInterface_call ''can1'',
          TeardownInterface_call ''can2'']"
proof -
  have h1: "server (svc \<lparr>svc = demo_service, world = [''can1'']\<rparr>)
     = Some \<lparr>Addr = '':8080'', ReadTimeout = 5 * Second, WriteTimeout = 10 * Second,
             IdleTimeout = 120 * Second\<rparr>"
    by (simp add: demo_service_def)
  have h2: "interfaceManager (svc \<lparr>svc = demo_service, world = [''can1'']\<rparr>) = Some InterfaceManager"
    by (simp add: demo_service_def)
  have h3: "setupManager (svc \<lparr>svc = demo_service, world = [''can1'']\<rparr>) = Some InterfaceSetupManager"
    by (simp add: demo_service_def)
  have h4: "config (svc \<lparr>svc = demo_service, world = [''can1'']\<rparr>) = Some demo_config"
    by (simp add: demo_service_def)
  have h5: "result (Stop (demo_env []) shutdownCtx \<lparr>svc = demo_service, world = [''can1'']\<rparr>) \<noteq> None"
    by (simp add: Stop_def teardownCanInterfaces_def teardown_body_def invoke_def
        demo_env_def demo_service_def demo_config_def logf_def)
  show ?thesis
    using stop_runs_its_steps_in_order[OF h1 h2 h3 h4, of "demo_env []" shutdownCtx] h1 h2 h3 h4 h5
    by (simp add: demo_config_def)
qed

text \<open>When the HTTP server's shutdown does not return, neither the cleanup nor any
  teardown is started.\<close>

lemma stop_waits_for_http_shutdown:
  "Stop ((demo_env [])\<lparr>ServerShutdown := (\<lambda>srv ctx w. None)\<rparr>) shutdownCtx
     \<lparr>svc = demo_service, world = [''can1'']\<rparr>
   = NoReturn [Printf L_Stopping, Call WatchdogStop_call Ok,
               Call (ServerShutdown_call shutdownCtx) Pending]"
  by (simp add: Stop_def invoke_def demo_env_def demo_service_def logf_def)

subsection \<open>Events and state of the setup loop, whatever the collaborators do\<close>

lemma emits_only_and_then:
  assumes "emits_only Q m" and "\<And>a s. emits_only Q (k a s)"
  shows "emits_only Q (and_then m k)"
  using assms by (cases m) (auto simp: emits_only_def)

lemma emits_only_for_each:
  assumes "\<And>x acc s. emits_only Q (body x acc s)"
  shows "emits_only Q (for_each xs body acc s)"
proof (induction xs arbitrary: acc s)
  case Nil
  show ?case by (simp add: emits_only_def)
next
  case (Cons x xs)
  show ?case using assms Cons.IH by (simp add: emits_only_and_then)
qed

lemma emits_only_invoke:
  assumes "Q (Call c Pending)" and "\<And>r. Q (Call c (rs r))"
  shows "emits_only Q (invoke c rs f s)"
  using assms by (auto simp: emits_only_def invoke_def split: option.splits)

lemma emits_only_logf: "Q (Printf m) \<Longrightarrow> emits_only Q (logf m s)"
  by (simp add: emits_only_def logf_def)

lemma emits_only_Returned: "\<forall>e \<in> set evs. Q e \<Longrightarrow> emits_only Q (Returned a evs s)"
  by (simp add: emits_only_def)

lemma emits_only_after:
  "\<forall>e \<in> set pre. Q e \<Longrightarrow> emits_only Q m \<Longrightarrow> emits_only Q (after pre m)"
  by (auto simp: emits_only_def)

lemma emits_only_NilPanic: "emits_only Q (NilPanic [])"
  by (simp add: emits_only_def)

lemma keeps_and_then:
  assumes "keeps P m" and "\<And>a s. P s \<Longrightarrow> keeps P' (k a s)"
  shows "keeps P' (and_then m k)"
proof (cases m)
  case (Returned a evs s)
  with assms(1) have "P s" by (simp add: keeps_def)
  from assms(2)[OF this, of a] Returned show ?thesis
    by (cases "k a s") (auto simp: keeps_def)
qed (simp_all add: keeps_def)

lemma keeps_for_each:
  assumes "\<And>x acc s. P s \<Longrightarrow> keeps P (body x acc s)" and "P s"
  shows "keeps P (for_each xs body acc s)"
  using assms(2)
proof (induction xs arbitrary: acc s)
  case Nil
  then show ?case by (simp add: keeps_def)
next
  case (Cons x xs)
  have "keeps P (and_then (body x acc s) (for_each xs body))"
    by (rule keeps_and_then[OF assms(1)[OF Cons.prems]]) (rule Cons.IH)
  then show ?case by simp
qed

lemma keeps_invoke: "(\<And>w'. P (s\<lparr>world := w'\<rparr>)) \<Longrightarrow> keeps P (invoke c rs f s)"
  by (auto simp: keeps_def invoke_def split: option.splits)

lemma keeps_logf: "P s \<Longrightarrow> keeps P (logf m s)"
  by (simp add: keeps_def logf_def)

lemma keeps_Returned: "P s \<Longrightarrow> keeps P (Returned a evs s)"
  by (simp add: keeps_def)

lemma keeps_after: "keeps P m \<Longrightarrow> keeps P (after pre m)"
  by (cases m) (auto simp: keeps_def)

lemma keeps_NilPanic: "keeps P (NilPanic evs)"
  by (simp add: keeps_def)

lemma res_of_pair_cases: "res_of_pair r = Ok \<or> (\<exists>e. res_of_pair r = Failed e)"
  by (cases r) simp_all

lemma res_of_err_cases: "res_of_err r = Ok \<or> (\<exists>e. res_of_err r = Failed e)"
  by (cases r) simp_all

lemma setup_body_emits: "emits_only setup_event (setup_body env x acc s)"
  unfolding setup_body_def
  by (auto intro!: emits_only_and_then emits_only_after emits_only_invoke emits_only_logf emits_only_Returned
      split: option.splits sum.splits prod.splits)

lemma setup_body_keeps: "svc s = v \<Longrightarrow> keeps (\<lambda>s'. svc s' = v) (setup_body env x acc s)"
  unfolding setup_body_def
  by (auto intro!: keeps_and_then[where P = "\<lambda>s'. svc s' = v"] keeps_after keeps_invoke keeps_logf keeps_Returned
      split: option.splits sum.splits prod.splits)

lemma setup_loop_emits: "emits_only setup_event (setup_loop env s)"
  unfolding setup_loop_def
  by (auto intro!: emits_only_and_then emits_only_after emits_only_for_each setup_body_emits emits_only_logf
      emits_only_Returned emits_only_NilPanic split: option.splits prod.splits)

lemma setup_loop_keeps: "svc s = v \<Longrightarrow> keeps (\<lambda>s'. svc s' = v) (setup_loop env s)"
  unfolding setup_loop_def
  by (auto intro!: keeps_and_then[where P = "\<lambda>s'. svc s' = v"] keeps_after keeps_for_each setup_body_keeps
      keeps_logf keeps_Returned keeps_NilPanic split: option.splits prod.splits)

lemma setupCanInterfaces_emits: "emits_only setup_event (setupCanInterfaces env s)"
  unfolding setupCanInterfaces_def
  by (auto intro!: emits_only_and_then emits_only_after emits_only_invoke setup_loop_emits emits_only_logf
      split: sum.splits)

lemma setupCanInterfaces_keeps:
  "svc s = v \<Longrightarrow> keeps (\<lambda>s'. svc s' = v) (setupCanInterfaces env s)"
  unfolding setupCanInterfaces_def
  by (auto intro!: keeps_and_then[where P = "\<lambda>s'. svc s' = v"] keeps_after keeps_invoke setup_loop_keeps
      keeps_logf split: sum.splits)

subsection \<open>The outcomes of Initialize\<close>

lemma Initialize_shape:
  "Initialize env s = NoReturn [Call ParseConfig_call Pending]
   \<or> (\<exists>e w. Initialize env s
               = Returned (Some (''failed to parse configuration: '' @ e))
                   [Call ParseConfig_call (Failed e)] (s\<lparr>world := w\<rparr>))
   \<or> Initialize env s = NoReturn [Call ParseConfig_call Ok, Call ValidateConfig_call Pending]
   \<or> (\<exists>e w. Initialize env s
               = Returned (Some (''configuration validation failed: '' @ e))
                   [Call ParseConfig_call Ok, Call ValidateConfig_call (Failed e)] (s\<lparr>world := w\<rparr>))
   \<or> (\<exists>cfg. Initialize env s = NoReturn (init_prefix cfg @ [Call ValidateSetupConfig_call Pending]))
   \<or> (\<exists>cfg e s'. Initialize env s
               = Returned (Some (''failed to initialize components: setup configuration validation failed: '' @ e))
                   (init_prefix cfg @ [Call ValidateSetupConfig_call (Failed e)]) s'
             \<and> config (svc s') = Some cfg \<and> monitor (svc s') = monitor (svc s))
   \<or> (\<exists>cfg w. Initialize env s
               = after (init_prefix cfg @ [Call ValidateSetupConfig_call Ok])
                   (Initialize_tail env \<lparr>svc = with_components cfg (svc s), world = w\<rparr>))"
proof (cases "ParseConfig env (world s)")
  case None
  then show ?thesis by (simp add: Initialize_def invoke_None)
next
  case (Some p1)
  obtain r1 w1 where p1: "p1 = (r1, w1)" by (cases p1)
  show ?thesis
  proof (cases r1)
    case (Inl e)
    with Some p1 have "Initialize env s
               = Returned (Some (''failed to parse configuration: '' @ e))
                   [Call ParseConfig_call (Failed e)] (s\<lparr>world := w1\<rparr>)"
      by (simp add: Initialize_def invoke_Some)
    then show ?thesis by blast
  next
    case (Inr cfg)
    show ?thesis
    proof (cases "ValidateConfig env cfg w1")
      case None
      with Some p1 Inr show ?thesis by (simp add: Initialize_def invoke_def)
    next
      case S2: (Some p2)
      obtain r2 w2 where p2: "p2 = (r2, w2)" by (cases p2)
      show ?thesis
      proof (cases r2)
        case S: (Some e)
        with Some p1 Inr S2 p2 have "Initialize env s
               = Returned (Some (''configuration validation failed: '' @ e))
                   [Call ParseConfig_call Ok, Call ValidateConfig_call (Failed e)] (s\<lparr>world := w2\<rparr>)"
          by (simp add: Initialize_def invoke_def)
        then show ?thesis by blast
      next
        case N2: None
        show ?thesis
        proof (cases "ValidateSetupConfig env (Some InterfaceSetupManager) w2")
          case None
          with Some p1 Inr S2 p2 N2 have
            "Initialize env s = NoReturn (init_prefix cfg @ [Call ValidateSetupConfig_call Pending])"
            by (simp add: Initialize_def invoke_def initializeComponents_def init_prefix_def)
          then show ?thesis by blast
        next
          case S3: (Some p3)
          obtain r3 w3 where p3: "p3 = (r3, w3)" by (cases p3)
          show ?thesis
          proof (cases r3)
            case S: (Some e)
            with Some p1 Inr S2 p2 N2 S3 p3 have "\<exists>s'. Initialize env s
               = Returned (Some (''failed to initialize components: setup configuration validation failed: '' @ e))
                   (init_prefix cfg @ [Call ValidateSetupConfig_call (Failed e)]) s'
             \<and> config (svc s') = Some cfg \<and> monitor (svc s') = monitor (svc s)"
              by (simp add: Initialize_def invoke_def initializeComponents_def init_prefix_def)
            then show ?thesis by blast
          next
            case None
            with Some p1 Inr S2 p2 N2 S3 p3 have
              "Initialize env s
               = after (init_prefix cfg @ [Call ValidateSetupConfig_call Ok])
                   (Initialize_tail env (s\<lparr>world := w3, svc := with_components cfg (svc s)\<rparr>))"
              by (simp add: Initialize_def invoke_def initializeComponents_def init_prefix_def
                  Initialize_tail_def with_components_def)
            moreover have "s\<lparr>world := w3, svc := with_components cfg (svc s)\<rparr>
                             = \<lparr>svc = with_components cfg (svc s), world = w3\<rparr>"
              by simp
            ultimately have
              "Initialize env s
               = after (init_prefix cfg @ [Call ValidateSetupConfig_call Ok])
                   (Initialize_tail env \<lparr>svc = with_components cfg (svc s), world = w3\<rparr>)"
              by simp
            then show ?thesis by blast
          qed
        qed
      qed
    qed
  qed
qed

lemma setupHTTPServer_returns:
  assumes "\<forall>r w. SetupRoutes env r w \<noteq> None"
    and "config (svc s) = Some cfg"
  shows "\<exists>s'. setupHTTPServer env s
                = Returned () [Call SetupRoutes_call Ok, Printf (L_WillRun ('':'' @ Port cfg))] s'
              \<and> server (svc s') \<noteq> None \<and> config (svc s') = Some cfg
              \<and> monitor (svc s') = monitor (svc s) \<and> setupManager (svc s') = setupManager (svc s)"
proof -
  from assms(1) obtain u w' where "SetupRoutes env (apiHandler (svc s)) (world s) = Some (u, w')"
    by (metis option.exhaust surj_pair)
  with assms(2) show ?thesis
    by (simp add: setupHTTPServer_def invoke_Some Let_def)
qed

lemma Initialize_tail_after_handle_failure:
  fixes s :: "'w state"
  assumes ia: "Call InitializeAll_call (Failed e) \<in> set (events (Initialize_tail env s))"
    and sr: "\<forall>r w. SetupRoutes env r w \<noteq> None"
    and cf: "config (svc s) = Some cfg"
  shows "\<exists>evs s'. Initialize_tail env s = Returned None evs s' \<and> Printf (L_Warning e) \<in> set evs
           \<and> Call SetupRoutes_call Ok \<in> set evs \<and> server (svc s') \<noteq> None"
proof (cases "setupCanInterfaces env s")
  case (NoReturn evs)
  with setupCanInterfaces_emits[of env s] have "\<forall>x \<in> set evs. setup_event x"
    by (simp add: emits_only_def)
  moreover from NoReturn ia have "Call InitializeAll_call (Failed e) \<in> set evs"
    by (simp add: Initialize_tail_def)
  ultimately show ?thesis by fastforce
next
  case (NilPanic evs)
  with setupCanInterfaces_emits[of env s] have "\<forall>x \<in> set evs. setup_event x"
    by (simp add: emits_only_def)
  moreover from NilPanic ia have "Call InitializeAll_call (Failed e) \<in> set evs"
    by (simp add: Initialize_tail_def)
  ultimately show ?thesis by fastforce
next
  case (Returned r evs s1)
  with setupCanInterfaces_emits[of env s] have ev: "\<forall>x \<in> set evs. setup_event x"
    by (simp add: emits_only_def)
  then have nia: "Call InitializeAll_call (Failed e) \<notin> set evs" by fastforce
  from Returned setupCanInterfaces_keeps[of s "svc s" env] have sv1: "svc s1 = svc s"
    by (simp add: keeps_def)
  define W where "W = (case r of Some x \<Rightarrow> [Printf (L_SetupWarning x)] | None \<Rightarrow> [])"
  have nW: "Call InitializeAll_call (Failed e) \<notin> set W"
    by (cases r) (simp_all add: W_def)
  have t: "Initialize_tail env s
           = after (evs @ W)
               (and_then (invoke InitializeAll_call res_of_err
                            (InitializeAll env (interfaceManager (svc s1))) s1) (\<lambda>err s.
                and_then (case err of
                            Some e \<Rightarrow> logf (L_Warning e) s
                          | None \<Rightarrow> Returned () [] s) (\<lambda>_ s.
                and_then (setupHTTPServer env s) (\<lambda>_ s.
                Returned None [] s))))"
    using Returned by (cases r) (simp_all add: Initialize_tail_def W_def logf_def)
  show ?thesis
  proof (cases "InitializeAll env (interfaceManager (svc s1)) (world s1)")
    case None
    with t ia nia nW show ?thesis by (simp add: invoke_None)
  next
    case (Some p)
    obtain err w2 where p: "p = (err, w2)" by (cases p)
    have c2: "config (svc (s1\<lparr>world := w2\<rparr>)) = Some cfg" using cf sv1 by simp
    from setupHTTPServer_returns[OF sr c2] obtain s3 where
      h: "setupHTTPServer env (s1\<lparr>world := w2\<rparr>)
            = Returned () [Call SetupRoutes_call Ok, Printf (L_WillRun ('':'' @ Port cfg))] s3"
      and sv3: "server (svc s3) \<noteq> None" by blast
    show ?thesis
    proof (cases err)
      case None
      with t ia nia nW Some p h show ?thesis by (simp add: invoke_Some)
    next
      case S: (Some e')
      with t ia nia nW Some p h sv3 show ?thesis by (simp add: invoke_Some logf_def)
    qed
  qed
qed

lemma Initialize_tail_returns:
  fixes s :: "'w state"
  assumes "config (svc s) = Some cfg"
    and "\<forall>r w. GetAvailableInterfaces env r w \<noteq> None"
    and "\<forall>r n w. SetupInterfaceWithRetry env r n w \<noteq> None"
    and "\<forall>r n w. GetInterfaceState env r n w \<noteq> None"
    and ia: "\<forall>r w. InitializeAll env r w \<noteq> None"
    and sr: "\<forall>r w. SetupRoutes env r w \<noteq> None"
  shows "\<exists>evs s'. Initialize_tail env s = Returned None evs s'
           \<and> setup_attempts evs = CanPorts cfg
           \<and> (succeeded evs = 0 \<longrightarrow>
                Printf (L_SetupWarning (''failed to setup any CAN interfaces: ''
                                         @ fmt_strings (failures evs))) \<in> set evs)
           \<and> server (svc s') \<noteq> None \<and> config (svc s') = Some cfg
           \<and> monitor (svc s') = monitor (svc s)"
proof -
  from setupCanInterfaces_returns[OF assms(1-4)] obtain r evs s1 where
    su: "setupCanInterfaces env s = Returned r evs s1" and sv1: "svc s1 = svc s"
    and at: "setup_attempts evs = CanPorts cfg"
    and z: "succeeded evs = 0 \<longrightarrow>
              r = Some (''failed to setup any CAN interfaces: '' @ fmt_strings (failures evs))"
    by (elim exE conjE) (rule that)
  from ia obtain err w2 where
    i: "InitializeAll env (interfaceManager (svc s1)) (world s1) = Some (err, w2)"
    by (metis option.exhaust surj_pair)
  have c2: "config (svc (s1\<lparr>world := w2\<rparr>)) = Some cfg" using assms(1) sv1 by simp
  from setupHTTPServer_returns[OF sr c2] obtain s3 where
    h: "setupHTTPServer env (s1\<lparr>world := w2\<rparr>)
          = Returned () [Call SetupRoutes_call Ok, Printf (L_WillRun ('':'' @ Port cfg))] s3"
    and sv3: "server (svc s3) \<noteq> None" "config (svc s3) = Some cfg"
      "monitor (svc s3) = monitor (svc s)"
    using sv1 by auto
  show ?thesis
    using su at z i h sv3
    by (cases r; cases err) (simp_all add: Initialize_tail_def invoke_Some logf_def)
qed

lemma Initialize_tail_emits:
  "emits_only (\<lambda>e. \<forall>r. e \<noteq> Call ValidateSetupConfig_call r) (Initialize_tail env s)"
proof -
  have 1: "emits_only (\<lambda>e. \<forall>r. e \<noteq> Call ValidateSetupConfig_call r) (setupCanInterfaces env s)" for s
    using setupCanInterfaces_emits[of env s] by (fastforce simp: emits_only_def)
  have 2: "emits_only (\<lambda>e. \<forall>r. e \<noteq> Call ValidateSetupConfig_call r) (setupHTTPServer env s)" for s
    unfolding setupHTTPServer_def
    by (auto intro!: emits_only_and_then emits_only_after emits_only_invoke emits_only_logf
        emits_only_Returned emits_only_NilPanic simp: Let_def split: option.splits)
  show ?thesis
    unfolding Initialize_tail_def
    by (auto intro!: emits_only_and_then emits_only_after emits_only_invoke emits_only_logf
        emits_only_Returned 1 2 split: option.splits)
qed

subsection \<open>Initialize and the outcome of the setup loop\<close>

text \<open>The definitions to unfold when the concrete deployment is run.\<close>

lemmas demo_eval =
  Initialize_def initializeComponents_def setupCanInterfaces_def setup_loop_def setup_body_def
  setupHTTPServer_def invoke_def logf_def fmt_strings_def Let_def
  demo_env_def demo_config_def NewService_def

text \<open>
  Claim C1, as the code has it. When no bring-up succeeds, \<^verbatim>\<open>setupCanInterfaces\<close>
  returns the error \<^verbatim>\<open>failed to setup any CAN interfaces\<close>, and \<^verbatim>\<open>Initialize\<close> logs it
  as a warning and goes on. Once the configuration is parsed and validated and the
  setup configuration is validated, \<^verbatim>\<open>Initialize\<close> returns nil whatever the bring-ups
  returned, with no interface up as well as with some or all of them up; the
  hypothesis is that the collaborator calls return at all.
\<close>

theorem setup_failures_do_not_fail_Initialize:
  fixes s :: "'w state"
  assumes "\<forall>r w. GetAvailableInterfaces env r w \<noteq> None"
    and "\<forall>r n w. SetupInterfaceWithRetry env r n w \<noteq> None"
    and "\<forall>r n w. GetInterfaceState env r n w \<noteq> None"
    and "\<forall>r w. InitializeAll env r w \<noteq> None"
    and "\<forall>r w. SetupRoutes env r w \<noteq> None"
    and "Call ValidateSetupConfig_call Ok \<in> set (events (Initialize env s))"
  shows "\<exists>evs s'. Initialize env s = Returned None evs s'
           \<and> (succeeded evs = 0 \<longrightarrow>
                Printf (L_SetupWarning (''failed to setup any CAN interfaces: ''
                                         @ fmt_strings (failures evs))) \<in> set evs)"
proof -
  from Initialize_shape[of env s] assms(6) obtain cfg w where
    i: "Initialize env s
          = after (init_prefix cfg @ [Call ValidateSetupConfig_call Ok])
              (Initialize_tail env \<lparr>svc = with_components cfg (svc s), world = w\<rparr>)"
    by (elim disjE exE conjE) (simp_all add: init_prefix_def)
  have c: "config (svc \<lparr>svc = with_components cfg (svc s), world = w\<rparr>) = Some cfg"
    by (simp add: with_components_def)
  from Initialize_tail_returns[OF c assms(1-5)] obtain evs s' where
    t: "Initialize_tail env \<lparr>svc = with_components cfg (svc s), world = w\<rparr> = Returned None evs s'"
    and z: "succeeded evs = 0 \<longrightarrow>
                Printf (L_SetupWarning (''failed to setup any CAN interfaces: ''
                                         @ fmt_strings (failures evs))) \<in> set evs"
    by (elim exE conjE) (rule that)
  show ?thesis using i t z by (simp add: init_prefix_def)
qed

theorem setup_failures_do_not_fail_Initialize_witness:
  "(\<forall>r w. GetAvailableInterfaces (demo_env [''can0'', ''can1'', ''can2'']) r w \<noteq> None)
   \<and> (\<forall>r n w. SetupInterfaceWithRetry (demo_env [''can0'', ''can1'', ''can2'']) r n w \<noteq> None)
   \<and> (\<forall>r n w. GetInterfaceState (demo_env [''can0'', ''can1'', ''can2'']) r n w \<noteq> None)
   \<and> (\<forall>r w. InitializeAll (demo_env [''can0'', ''can1'', ''can2'']) r w \<noteq> None)
   \<and> (\<forall>r w. SetupRoutes (demo_env [''can0'', ''can1'', ''can2'']) r w \<noteq> None)
   \<and> Call ValidateSetupConfig_call Ok
        \<in> set (events (Initialize (demo_env [''can0'', ''can1'', ''can2''])
                          \<lparr>svc = NewService, world = []\<rparr>))
   \<and> (\<exists>evs s'. Initialize (demo_env [''can0'', ''can1'', ''can2''])
                    \<lparr>svc = NewService, world = []\<rparr> = Returned None evs s'
          \<and> (succeeded evs = 0 \<longrightarrow>
                Printf (L_SetupWarning (''failed to setup any CAN interfaces: ''
                                         @ fmt_strings (failures evs))) \<in> set evs))
   \<and> succeeded (events (Initialize (demo_env [''can0'', ''can1'', ''can2''])
                          \<lparr>svc = NewService, world = []\<rparr>)) = 0"
proof -
  have h1: "\<forall>r w. GetAvailableInterfaces (demo_env [''can0'', ''can1'', ''can2'']) r w \<noteq> None"
    by (simp add: demo_env_def)
  have h2: "\<forall>r n w. SetupInterfaceWithRetry (demo_env [''can0'', ''can1'', ''can2'']) r n w \<noteq> None"
    by (simp add: demo_env_def)
  have h3: "\<forall>r n w. GetInterfaceState (demo_env [''can0'', ''can1'', ''can2'']) r n w \<noteq> None"
    by (simp add: demo_env_def)
  have h4: "\<forall>r w. InitializeAll (demo_env [''can0'', ''can1'', ''can2'']) r w \<noteq> None"
    by (simp add: demo_env_def)
  have h5: "\<forall>r w. SetupRoutes (demo_env [''can0'', ''can1'', ''can2'']) r w \<noteq> None"
    by (simp add: demo_env_def)
  have h6: "Call ValidateSetupConfig_call Ok
        \<in> set (events (Initialize (demo_env [''can0'', ''can1'', ''can2''])
                          \<lparr>svc = NewService, world = []\<rparr>))"
    by (simp add: demo_eval)
  have z: "succeeded (events (Initialize (demo_env [''can0'', ''can1'', ''can2''])
                          \<lparr>svc = NewService, world = []\<rparr>)) = 0"
    by (simp add: demo_eval)
  show ?thesis
    using setup_failures_do_not_fail_Initialize[OF h1 h2 h3 h4 h5 h6] h1 h2 h3 h4 h5 h6 z
    by simp
qed

text \<open>
  Claim C1 as stated fails: every bring-up fails, \<^verbatim>\<open>Initialize\<close> returns nil, and
  \<^verbatim>\<open>main\<close> goes on to start the watchdog.
\<close>

theorem zero_interfaces_counterexample:
  "Initialize (demo_env [''can0'', ''can1'', ''can2'']) \<lparr>svc = NewService, world = []\<rparr>
     = Returned None
         [Call ParseConfig_call Ok,
          Call ValidateConfig_call Ok,
          Printf L_Starting,
          Printf L_Configuration,
          Printf (L_CanPorts [''can0'', ''can1'', ''can2'']),
          Printf (L_ServerPort ''8080''),
          Call ValidateSetupConfig_call Ok,
          Printf L_SettingUpAll,
          Call GetAvailableInterfaces_call Ok,
          Printf (L_Available [''can0'', ''can1'', ''can2'']),
          Printf (L_SettingUp ''can0''),
          Call (SetupInterfaceWithRetry_call ''can0'') (Failed ''no such device''),
          Printf (L_SetupFailed ''can0'' ''no such device''),
          Printf (L_SettingUp ''can1''),
          Call (SetupInterfaceWithRetry_call ''can1'') (Failed ''no such device''),
          Printf (L_SetupFailed ''can1'' ''no such device''),
          Printf (L_SettingUp ''can2''),
          Call (SetupInterfaceWithRetry_call ''can2'') (Failed ''no such device''),
          Printf (L_SetupFailed ''can2'' ''no such device''),
          Printf (L_SetupWarning
            ''failed to setup any CAN interfaces: [can0: no such device can1: no such device can2: no such device]''),
          Call InitializeAll_call (Failed ''no handle''),
          Printf (L_Warning ''no handle''),
          Call SetupRoutes_call Ok,
          Printf (L_WillRun '':8080'')]
         \<lparr>svc = demo_service, world = []\<rparr>
   \<and> Call (WatchdogStart_call (WithCancel Background)) Ok
        \<in> set (events (main (demo_env [''can0'', ''can1'', ''can2'']) [''can-bridge''] []))"
proof -
  have i: "Initialize (demo_env [''can0'', ''can1'', ''can2'']) \<lparr>svc = NewService, world = []\<rparr>
     = Returned None
         [Call ParseConfig_call Ok,
          Call ValidateConfig_call Ok,
          Printf L_Starting,
          Printf L_Configuration,
          Printf (L_CanPorts [''can0'', ''can1'', ''can2'']),
          Printf (L_ServerPort ''8080''),
          Call ValidateSetupConfig_call Ok,
          Printf L_SettingUpAll,
          Call GetAvailableInterfaces_call Ok,
          Printf (L_Available [''can0'', ''can1'', ''can2'']),
          Printf (L_SettingUp ''can0''),
          Call (SetupInterfaceWithRetry_call ''can0'') (Failed ''no such device''),
          Printf (L_SetupFailed ''can0'' ''no such device''),
          Printf (L_SettingUp ''can1''),
          Call (SetupInterfaceWithRetry_call ''can1'') (Failed ''no such device''),
          Printf (L_SetupFailed ''can1'' ''no such device''),
          Printf (L_SettingUp ''can2''),
          Call (SetupInterfaceWithRetry_call ''can2'') (Failed ''no such device''),
          Printf (L_SetupFailed ''can2'' ''no such device''),
          Printf (L_SetupWarning
            ''failed to setup any CAN interfaces: [can0: no such device can1: no such device can2: no such device]''),
          Call InitializeAll_call (Failed ''no handle''),
          Printf (L_Warning ''no handle''),
          Call SetupRoutes_call Ok,
          Printf (L_WillRun '':8080'')]
         \<lparr>svc = demo_service, world = []\<rparr>"
    by (simp add: demo_eval demo_service_def)
  have m: "Call (WatchdogStart_call (WithCancel Background)) Ok
        \<in> set (events (main (demo_env [''can0'', ''can1'', ''can2'']) [''can-bridge''] []))"
    unfolding main_def Let_def
    by (simp add: i) (simp add: Start_def invoke_def demo_env_def demo_service_def)
  show ?thesis using i m by simp
qed

subsection \<open>Validation of the setup configuration\<close>

text \<open>
  Claim C5. Whatever the collaborators do, \<^verbatim>\<open>Initialize\<close> operates on no interface (no
  listing, bring-up, state query, teardown, opening or closing of handles) before
  \<^verbatim>\<open>ValidateSetupConfig\<close> has returned without error; and when
  \<^verbatim>\<open>ValidateSetupConfig\<close> returns an error, \<^verbatim>\<open>Initialize\<close> returns that error,
  wrapped, and has operated on no interface at all.
\<close>

theorem setup_config_is_validated_first:
  fixes s :: "'w state"
  shows "validated_first (events (Initialize env s))
         \<and> (\<forall>e. Call ValidateSetupConfig_call (Failed e) \<in> set (events (Initialize env s)) \<longrightarrow>
                result (Initialize env s)
                  = Some (Some (''failed to initialize components: setup configuration validation failed: '' @ e))
                \<and> \<not> list_ex touches_interface (events (Initialize env s)))"
proof -
  consider
    (early) "Initialize env s = NoReturn [Call ParseConfig_call Pending]
      \<or> (\<exists>e w. Initialize env s
               = Returned (Some (''failed to parse configuration: '' @ e))
                   [Call ParseConfig_call (Failed e)] (s\<lparr>world := w\<rparr>))
      \<or> Initialize env s = NoReturn [Call ParseConfig_call Ok, Call ValidateConfig_call Pending]
      \<or> (\<exists>e w. Initialize env s
               = Returned (Some (''configuration validation failed: '' @ e))
                   [Call ParseConfig_call Ok, Call ValidateConfig_call (Failed e)] (s\<lparr>world := w\<rparr>))
      \<or> (\<exists>cfg. Initialize env s = NoReturn (init_prefix cfg @ [Call ValidateSetupConfig_call Pending]))"
    | (invalid) cfg e s' where "Initialize env s
               = Returned (Some (''failed to initialize components: setup configuration validation failed: '' @ e))
                   (init_prefix cfg @ [Call ValidateSetupConfig_call (Failed e)]) s'"
    | (valid) cfg w where "Initialize env s
               = after (init_prefix cfg @ [Call ValidateSetupConfig_call Ok])
                   (Initialize_tail env \<lparr>svc = with_components cfg (svc s), world = w\<rparr>)"
    using Initialize_shape[of env s] by blast
  then show ?thesis
  proof cases
    case early
    then show ?thesis
      by (elim disjE exE) (simp_all add: init_prefix_def)
  next
    case invalid
    then show ?thesis by (simp add: init_prefix_def)
  next
    case valid
    from Initialize_tail_emits[of env "\<lparr>svc = with_components cfg (svc s), world = w\<rparr>"]
    have "\<forall>e. Call ValidateSetupConfig_call (Failed e)
             \<notin> set (events (Initialize_tail env \<lparr>svc = with_components cfg (svc s), world = w\<rparr>))"
      by (auto simp: emits_only_def)
    with valid show ?thesis by (simp add: init_prefix_def)
  qed
qed

text \<open>A setup configuration that does not validate.\<close>

theorem setup_config_is_validated_first_witness:
  "validated_first (events (Initialize demo_env_bad_setup_config \<lparr>svc = NewService, world = []\<rparr>))
   \<and> Call ValidateSetupConfig_call (Failed ''retry count out of range'')
        \<in> set (events (Initialize demo_env_bad_setup_config \<lparr>svc = NewService, world = []\<rparr>))
   \<and> result (Initialize demo_env_bad_setup_config \<lparr>svc = NewService, world = []\<rparr>)
        = Some (Some ''failed to initialize components: setup configuration validation failed: retry count out of range'')
   \<and> \<not> list_ex touches_interface
          (events (Initialize demo_env_bad_setup_config \<lparr>svc = NewService, world = []\<rparr>))"
proof -
  have h: "Call ValidateSetupConfig_call (Failed ''retry count out of range'')
        \<in> set (events (Initialize demo_env_bad_setup_config \<lparr>svc = NewService, world = []\<rparr>))"
    by (simp add: demo_eval demo_env_bad_setup_config_def)
  show ?thesis
    using setup_config_is_validated_first[of demo_env_bad_setup_config
        "\<lparr>svc = NewService, world = []\<rparr>"] h
    by simp
qed

subsection \<open>Failures of opening the handles\<close>

text \<open>
  Claim C7. When \<^verbatim>\<open>InitializeAll\<close> returns an error, \<^verbatim>\<open>Initialize\<close> logs it as a
  warning, goes on to set up the HTTP server (the routes are registered and the server
  is stored) and returns nil; the hypothesis is that the registration of the routes
  returns.
\<close>

theorem handle_failures_do_not_fail_Initialize:
  fixes s :: "'w state"
  assumes "Call InitializeAll_call (Failed e) \<in> set (events (Initialize env s))"
    and "\<forall>r w. SetupRoutes env r w \<noteq> None"
  shows "\<exists>evs s'. Initialize env s = Returned None evs s' \<and> Printf (L_Warning e) \<in> set evs
           \<and> Call SetupRoutes_call Ok \<in> set evs \<and> server (svc s') \<noteq> None"
proof -
  from Initialize_shape[of env s] assms(1) obtain cfg w where
    i: "Initialize env s
          = after (init_prefix cfg @ [Call ValidateSetupConfig_call Ok])
              (Initialize_tail env \<lparr>svc = with_components cfg (svc s), world = w\<rparr>)"
    by (elim disjE exE conjE) (simp_all add: init_prefix_def)
  with assms(1) have ia: "Call InitializeAll_call (Failed e)
      \<in> set (events (Initialize_tail env \<lparr>svc = with_components cfg (svc s), world = w\<rparr>))"
    by (simp add: init_prefix_def)
  have c: "config (svc \<lparr>svc = with_components cfg (svc s), world = w\<rparr>) = Some cfg"
    by (simp add: with_components_def)
  from Initialize_tail_after_handle_failure[OF ia assms(2) c] obtain evs s' where
    "Initialize_tail env \<lparr>svc = with_components cfg (svc s), world = w\<rparr> = Returned None evs s'"
    "Printf (L_Warning e) \<in> set evs" "Call SetupRoutes_call Ok \<in> set evs" "server (svc s') \<noteq> None"
    by blast
  with i show ?thesis by simp
qed

text \<open>With \<open>can1\<close> down, no handle can be opened for it.\<close>

theorem handle_failures_do_not_fail_Initialize_witness:
  "Call InitializeAll_call (Failed ''no handle'')
     \<in> set (events (Initialize (demo_env [''can1'']) \<lparr>svc = NewService, world = []\<rparr>))
   \<and> (\<forall>r w. SetupRoutes (demo_env [''can1'']) r w \<noteq> None)
   \<and> (\<exists>evs s'. Initialize (demo_env [''can1'']) \<lparr>svc = NewService, world = []\<rparr>
                   = Returned None evs s'
          \<and> Printf (L_Warning ''no handle'') \<in> set evs
          \<and> Call SetupRoutes_call Ok \<in> set evs \<and> server (svc s') \<noteq> None)"
proof -
  have h1: "Call InitializeAll_call (Failed ''no handle'')
     \<in> set (events (Initialize (demo_env [''can1'']) \<lparr>svc = NewService, world = []\<rparr>))"
    by (simp add: demo_eval)
  have h2: "\<forall>r w. SetupRoutes (demo_env [''can1'']) r w \<noteq> None"
    by (simp add: demo_env_def)
  show ?thesis
    using handle_failures_do_not_fail_Initialize[OF h1 h2] h1 h2 by simp
qed

subsection \<open>The status query\<close>

lemma queries_append [simp]: "queries n (xs @ ys) = queries n xs @ queries n ys"
  by (induction n xs rule: queries.induct) simp_all

lemma status_body_returns:
  assumes "\<forall>r n w. GetInterfaceState env r n w \<noteq> None"
  shows "\<exists>is' evs s'. status_body env x is s = Returned is' evs s' \<and> svc s' = svc s
           \<and> ((\<exists>e. evs = [Call (GetInterfaceState_call x) (Failed e)]
                    \<and> is' = is(x \<mapsto> VMap [''error'' \<mapsto> VString e]))
                \<or> (\<exists>st. evs = [Call (GetInterfaceState_call x) Ok] \<and> is' = is(x \<mapsto> VState st)))"
proof -
  from assms obtain r w' where
    g: "GetInterfaceState env (setupManager (svc s)) x (world s) = Some (r, w')"
    by (metis option.exhaust surj_pair)
  then show ?thesis
    by (cases r) (auto simp: status_body_def invoke_Some)
qed

lemma status_loop_returns:
  fixes s :: "'w state" and env :: "('w, 'c) collaborators"
  assumes "\<forall>r n w. GetInterfaceState env r n w \<noteq> None"
  shows "\<exists>is evs s'. for_each ports (status_body env) Map.empty s = Returned is evs s'
           \<and> svc s' = svc s \<and> calls evs = map GetInterfaceState_call ports \<and> dom is = set ports
           \<and> (\<forall>n e. queries n evs \<noteq> [] \<and> last (queries n evs) = Failed e \<longrightarrow>
                  is n = Some (VMap [''error'' \<mapsto> VString e]))
           \<and> (\<forall>n. queries n evs \<noteq> [] \<and> last (queries n evs) = Ok \<longrightarrow>
                  (\<exists>st. is n = Some (VState st)))"
proof -
  let ?P = "\<lambda>ys (is :: string \<Rightarrow> 'c val option) pre (s'::'w state).
      svc s' = svc s \<and> calls pre = map GetInterfaceState_call ys \<and> dom is = set ys
      \<and> (\<forall>n e. queries n pre \<noteq> [] \<and> last (queries n pre) = Failed e \<longrightarrow>
             is n = Some (VMap [''error'' \<mapsto> VString e]))
      \<and> (\<forall>n. queries n pre \<noteq> [] \<and> last (queries n pre) = Ok \<longrightarrow>
             (\<exists>st. is n = Some (VState st)))"
  have "\<exists>acc' evs s'. for_each ports (status_body env) Map.empty s = Returned acc' evs s'
          \<and> ?P ([] @ ports) acc' ([] @ evs) s'"
  proof (rule for_each_rule[where P = ?P])
    show "?P [] Map.empty [] s" by simp
  next
    fix x ys and acc :: "string \<Rightarrow> 'c val option" and pre and s1 :: "'w state"
    assume p: "?P ys acc pre s1"
    from status_body_returns[OF assms, of x acc s1] obtain is' evs s2 where
      b: "status_body env x acc s1 = Returned is' evs s2" and sv: "svc s2 = svc s1"
      and c: "(\<exists>e. evs = [Call (GetInterfaceState_call x) (Failed e)]
                    \<and> is' = acc(x \<mapsto> VMap [''error'' \<mapsto> VString e]))
                \<or> (\<exists>st. evs = [Call (GetInterfaceState_call x) Ok] \<and> is' = acc(x \<mapsto> VState st))"
      by blast
    have "?P (ys @ [x]) is' (pre @ evs) s2"
      using p sv c by (elim disjE exE conjE) auto
    with b show "\<exists>acc' evs s'. status_body env x acc s1 = Returned acc' evs s'
        \<and> ?P (ys @ [x]) acc' (pre @ evs) s'" by blast
  qed
  then show ?thesis by simp
qed

lemma GetStatus_returns:
  fixes s :: "'w state" and env :: "('w, 'c) collaborators"
  assumes "monitor (svc s) \<noteq> None"
    and "config (svc s) = Some cfg"
    and gs: "\<forall>r w. GetSystemStatus env r w \<noteq> None"
    and gc: "\<forall>r w. GetSetupConfig env r w \<noteq> None"
    and gi: "\<forall>r n w. GetInterfaceState env r n w \<noteq> None"
  shows "\<exists>m evs s'. GetStatus env s = Returned m evs s'
           \<and> m ''status'' = Some (VString ''running'')
           \<and> (setupManager (svc s) \<noteq> None \<longrightarrow>
                (\<exists>c is. m ''setup'' = Some (VMap [''config'' \<mapsto> VConfig c,
                                                    ''interfaceStates'' \<mapsto> VMap is])
                   \<and> dom is = set (CanPorts cfg)
                   \<and> (\<forall>n e. queries n evs \<noteq> [] \<and> last (queries n evs) = Failed e \<longrightarrow>
                          is n = Some (VMap [''error'' \<mapsto> VString e]))))"
proof -
  from assms(1) obtain mon where mon: "monitor (svc s) = Some mon" by auto
  from gs obtain st w1 where
    1: "GetSystemStatus env (monitor (svc s)) (world s) = Some (st, w1)"
    by (metis option.exhaust surj_pair)
  show ?thesis
  proof (cases "setupManager (svc s)")
    case None
    with mon 1 show ?thesis by (simp add: GetStatus_def invoke_Some)
  next
    case (Some sm)
    from gc obtain c w2 where
      2: "GetSetupConfig env (setupManager (svc s)) w1 = Some (c, w2)"
      by (metis option.exhaust surj_pair)
    from status_loop_returns[OF gi, of "CanPorts cfg" "s\<lparr>world := w2\<rparr>"] obtain "is" evs s' where
      3: "for_each (CanPorts cfg) (status_body env) Map.empty (s\<lparr>world := w2\<rparr>) = Returned is evs s'"
      and d: "dom is = set (CanPorts cfg)"
      and e: "\<forall>n e. queries n evs \<noteq> [] \<and> last (queries n evs) = Failed e \<longrightarrow>
                  is n = Some (VMap [''error'' \<mapsto> VString e])"
      by (elim exE conjE) (rule that)
    show ?thesis
      using mon Some assms(2) 1 2 3 d e
      by (simp add: GetStatus_def invoke_Some) blast
  qed
qed

text \<open>A service that \<^verbatim>\<open>NewService\<close> has created and \<^verbatim>\<open>Initialize\<close> has worked on, with
  whatever outcome, is consistent.\<close>

lemma keeps_weaken: "keeps P m \<Longrightarrow> (\<And>s. P s \<Longrightarrow> P' s) \<Longrightarrow> keeps P' m"
  by (auto simp: keeps_def)

lemma setupCanInterfaces_keeps_config:
  "config (svc s) = Some cfg \<Longrightarrow> keeps (\<lambda>s'. config (svc s') = Some cfg) (setupCanInterfaces env s)"
  by (rule keeps_weaken[OF setupCanInterfaces_keeps[OF refl]]) simp

lemma setupHTTPServer_keeps_config:
  "config (svc s) = Some cfg \<Longrightarrow> keeps (\<lambda>s'. config (svc s') = Some cfg) (setupHTTPServer env s)"
  unfolding setupHTTPServer_def
  by (auto intro!: keeps_and_then[where P = "\<lambda>s'. config (svc s') = Some cfg"] keeps_after
      keeps_invoke keeps_logf keeps_Returned keeps_NilPanic simp: Let_def split: option.splits)

lemma Initialize_tail_keeps_config:
  "config (svc s) = Some cfg \<Longrightarrow> keeps (\<lambda>s'. config (svc s') = Some cfg) (Initialize_tail env s)"
  unfolding Initialize_tail_def
  by (auto intro!: keeps_and_then[where P = "\<lambda>s'. config (svc s') = Some cfg"] keeps_after
      keeps_invoke keeps_logf keeps_Returned setupCanInterfaces_keeps_config
      setupHTTPServer_keeps_config split: option.splits)

lemma NewService_consistent: "consistent NewService"
  by (simp add: consistent_def NewService_def)

lemma Initialize_consistent:
  assumes "consistent (svc s)" and "Initialize env s = Returned r evs s'"
  shows "consistent (svc s')"
  using Initialize_shape[of env s]
proof (elim disjE exE conjE, goal_cases)
  case 1
  with assms(2) show ?case by simp
next
  case (2 e w)
  with assms show ?case by auto
next
  case 3
  with assms(2) show ?case by simp
next
  case (4 e w)
  with assms show ?case by auto
next
  case (5 cfg)
  with assms(2) show ?case by simp
next
  case (6 cfg e s'')
  with assms(2) show ?case by (auto simp: consistent_def)
next
  case (7 cfg w)
  have c: "config (svc \<lparr>svc = with_components cfg (svc s), world = w\<rparr>) = Some cfg"
    by (simp add: with_components_def)
  from 7 assms(2) obtain evs' where
    "Initialize_tail env \<lparr>svc = with_components cfg (svc s), world = w\<rparr> = Returned r evs' s'"
    by (cases "Initialize_tail env \<lparr>svc = with_components cfg (svc s), world = w\<rparr>") auto
  with Initialize_tail_keeps_config[OF c, of env] have "config (svc s') = Some cfg"
    by (simp add: keeps_def)
  then show ?case by (simp add: consistent_def)
qed

text \<open>
  Claim C10. On a service without a monitor, \<^verbatim>\<open>GetStatus\<close> returns the map with the
  single entry \<^verbatim>\<open>status\<close>, \<^verbatim>\<open>not_initialized\<close>, calls no collaborator and leaves the
  state as it is, whatever the collaborators are. On a service with a monitor,
  \<^verbatim>\<open>GetStatus\<close> returns a map whose status is \<^verbatim>\<open>running\<close>; with a setup manager, the
  map holds one entry per configured interface, and the entry of an interface whose
  last state query returned an error is the map with that error under \<^verbatim>\<open>error\<close>. The
  hypotheses of the second part are that the service is consistent and that the three
  collaborator calls return.
\<close>

theorem GetStatus_always_answers:
  fixes s :: "'w state" and env :: "('w, 'c) collaborators"
  shows "(monitor (svc s) = None \<longrightarrow>
            GetStatus env s = Returned [''status'' \<mapsto> VString ''not_initialized''] [] s)
         \<and> (monitor (svc s) \<noteq> None \<and> consistent (svc s)
              \<and> (\<forall>r w. GetSystemStatus env r w \<noteq> None)
              \<and> (\<forall>r w. GetSetupConfig env r w \<noteq> None)
              \<and> (\<forall>r n w. GetInterfaceState env r n w \<noteq> None) \<longrightarrow>
            (\<exists>m evs s'. GetStatus env s = Returned m evs s'
               \<and> m ''status'' = Some (VString ''running'')
               \<and> (setupManager (svc s) \<noteq> None \<longrightarrow>
                    (\<exists>c is cfg. config (svc s) = Some cfg
                       \<and> m ''setup'' = Some (VMap [''config'' \<mapsto> VConfig c,
                                                    ''interfaceStates'' \<mapsto> VMap is])
                       \<and> dom is = set (CanPorts cfg)
                       \<and> (\<forall>n e. queries n evs \<noteq> [] \<and> last (queries n evs) = Failed e \<longrightarrow>
                              is n = Some (VMap [''error'' \<mapsto> VString e]))))))"
proof (intro conjI impI)
  assume "monitor (svc s) = None"
  then show "GetStatus env s = Returned [''status'' \<mapsto> VString ''not_initialized''] [] s"
    by (simp add: GetStatus_def)
next
  assume a: "monitor (svc s) \<noteq> None \<and> consistent (svc s)
              \<and> (\<forall>r w. GetSystemStatus env r w \<noteq> None)
              \<and> (\<forall>r w. GetSetupConfig env r w \<noteq> None)
              \<and> (\<forall>r n w. GetInterfaceState env r n w \<noteq> None)"
  then obtain cfg where c: "config (svc s) = Some cfg" by (auto simp: consistent_def)
  from a have m: "monitor (svc s) \<noteq> None"
    and gs: "\<forall>r w. GetSystemStatus env r w \<noteq> None"
    and gc: "\<forall>r w. GetSetupConfig env r w \<noteq> None"
    and gi: "\<forall>r n w. GetInterfaceState env r n w \<noteq> None" by blast+
  from GetStatus_returns[OF m c gs gc gi] c
  show "\<exists>m evs s'. GetStatus env s = Returned m evs s'
               \<and> m ''status'' = Some (VString ''running'')
               \<and> (setupManager (svc s) \<noteq> None \<longrightarrow>
                    (\<exists>c is cfg. config (svc s) = Some cfg
                       \<and> m ''setup'' = Some (VMap [''config'' \<mapsto> VConfig c,
                                                    ''interfaceStates'' \<mapsto> VMap is])
                       \<and> dom is = set (CanPorts cfg)
                       \<and> (\<forall>n e. queries n evs \<noteq> [] \<and> last (queries n evs) = Failed e \<longrightarrow>
                              is n = Some (VMap [''error'' \<mapsto> VString e]))))"
    by (elim exE conjE) blast
qed

text \<open>A service fresh from \<^verbatim>\<open>NewService\<close>, and the initialized service with \<open>can1\<close>
  failing its state query.\<close>

theorem GetStatus_always_answers_witness:
  "monitor (svc \<lparr>svc = NewService, world = []\<rparr>) = None
   \<and> GetStatus (demo_env [''can1'']) \<lparr>svc = NewService, world = []\<rparr>
       = Returned [''status'' \<mapsto> VString ''not_initialized''] [] \<lparr>svc = NewService, world = []\<rparr>
   \<and> monitor (svc \<lparr>svc = demo_service, world = [''can2'', ''can0'']\<rparr>) \<noteq> None
   \<and> consistent (svc \<lparr>svc = demo_service, world = [''can2'', ''can0'']\<rparr>)
   \<and> (\<forall>r w. GetSystemStatus (demo_env [''can1'']) r w \<noteq> None)
   \<and> (\<forall>r w. GetSetupConfig (demo_env [''can1'']) r w \<noteq> None)
   \<and> (\<forall>r n w. GetInterfaceState (demo_env [''can1'']) r n w \<noteq> None)
   \<and> (\<exists>m evs s'. GetStatus (demo_env [''can1'']) \<lparr>svc = demo_service, world = [''can2'', ''can0'']\<rparr>
                     = Returned m evs s'
          \<and> m ''status'' = Some (VString ''running'')
          \<and> (\<exists>c is. m ''setup'' = Some (VMap [''config'' \<mapsto> VConfig c,
                                                ''interfaceStates'' \<mapsto> VMap is])
                 \<and> dom is = {''can0'', ''can1'', ''can2''}
                 \<and> (\<forall>n e. queries n evs \<noteq> [] \<and> last (queries n evs) = Failed e \<longrightarrow>
                        is n = Some (VMap [''error'' \<mapsto> VString e]))))
   \<and> queries ''can1'' (events (GetStatus (demo_env [''can1''])
                                  \<lparr>svc = demo_service, world = [''can2'', ''can0'']\<rparr>))
       = [Failed ''no such device'']"
proof -
  have h0: "monitor (svc \<lparr>svc = NewService, world = []\<rparr>) = None"
    by (simp add: NewService_def)
  have h1: "monitor (svc \<lparr>svc = demo_service, world = [''can2'', ''can0'']\<rparr>) \<noteq> None
     \<and> consistent (svc \<lparr>svc = demo_service, world = [''can2'', ''can0'']\<rparr>)
     \<and> (\<forall>r w. GetSystemStatus (demo_env [''can1'']) r w \<noteq> None)
     \<and> (\<forall>r w. GetSetupConfig (demo_env [''can1'']) r w \<noteq> None)
     \<and> (\<forall>r n w. GetInterfaceState (demo_env [''can1'']) r n w \<noteq> None)"
    by (simp add: demo_service_def consistent_def demo_env_def)
  have h2: "setupManager (svc \<lparr>svc = demo_service, world = [''can2'', ''can0'']\<rparr>) \<noteq> None"
    "config (svc \<lparr>svc = demo_service, world = [''can2'', ''can0'']\<rparr>) = Some demo_config"
    by (simp_all add: demo_service_def)
  have q: "queries ''can1'' (events (GetStatus (demo_env [''can1''])
                                  \<lparr>svc = demo_service, world = [''can2'', ''can0'']\<rparr>))
       = [Failed ''no such device'']"
    by (simp add: GetStatus_def status_body_def invoke_def demo_env_def demo_service_def
        demo_config_def)
  from GetStatus_always_answers[of "\<lparr>svc = NewService, world = []\<rparr>" "demo_env [''can1'']"] h0
  have a: "GetStatus (demo_env [''can1'']) \<lparr>svc = NewService, world = []\<rparr>
       = Returned [''status'' \<mapsto> VString ''not_initialized''] [] \<lparr>svc = NewService, world = []\<rparr>"
    by blast
  from GetStatus_always_answers[of "\<lparr>svc = demo_service, world = [''can2'', ''can0'']\<rparr>"
      "demo_env [''can1'']"] h1 h2
  have b: "\<exists>m evs s'. GetStatus (demo_env [''can1'']) \<lparr>svc = demo_service, world = [''can2'', ''can0'']\<rparr>
                     = Returned m evs s'
          \<and> m ''status'' = Some (VString ''running'')
          \<and> (\<exists>c is. m ''setup'' = Some (VMap [''config'' \<mapsto> VConfig c,
                                                ''interfaceStates'' \<mapsto> VMap is])
                 \<and> dom is = {''can0'', ''can1'', ''can2''}
                 \<and> (\<forall>n e. queries n evs \<noteq> [] \<and> last (queries n evs) = Failed e \<longrightarrow>
                        is n = Some (VMap [''error'' \<mapsto> VString e])))"
    by (simp add: demo_config_def)
  from h0 h1 a b q show ?thesis by (intro conjI) (elim conjE, assumption)+
qed

text \<open>The status of that deployment in full.\<close>

lemma GetStatus_demo:
  "GetStatus (demo_env [''can1'']) \<lparr>svc = demo_service, world = [''can2'', ''can0'']\<rparr>
   = Returned
       [''status'' \<mapsto> VString ''running'',
        ''uptime'' \<mapsto> VString ''5s'',
        ''activeInterfaces'' \<mapsto> VNames [''can2'', ''can0''],
        ''watchdogRunning'' \<mapsto> VBool True,
        ''setup'' \<mapsto> VMap
           [''config'' \<mapsto> VConfig 3,
            ''interfaceStates'' \<mapsto> VMap
               [''can0'' \<mapsto> VState \<lparr>Bitrate = 500000, State = ''UP'', IsUp = True\<rparr>,
                ''can1'' \<mapsto> VMap [''error'' \<mapsto> VString ''no such device''],
                ''can2'' \<mapsto> VState \<lparr>Bitrate = 500000, State = ''UP'', IsUp = True\<rparr>]]]
       [Call GetSystemStatus_call Ok,
        Call GetSetupConfig_call Ok,
        Call (GetInterfaceState_call ''can0'') Ok,
        Call (GetInterfaceState_call ''can1'') (Failed ''no such device''),
        Call (GetInterfaceState_call ''can2'') Ok]
       \<lparr>svc = demo_service, world = [''can2'', ''can0'']\<rparr>"
  by (simp add: GetStatus_def status_body_def invoke_def demo_env_def demo_service_def
      demo_config_def)

subsection \<open>The shutdown deadline\<close>

text \<open>What a sequence that returned was made of.\<close>

lemma after_Returned_iff:
  "after pre m = Returned b evs s' \<longleftrightarrow> (\<exists>e2. m = Returned b e2 s' \<and> evs = pre @ e2)"
  by (cases m) auto

lemma and_then_Returned_iff:
  "and_then m k = Returned b evs s'
     \<longleftrightarrow> (\<exists>a e1 s1 e2. m = Returned a e1 s1 \<and> k a s1 = Returned b e2 s' \<and> evs = e1 @ e2)"
  by (cases m) (auto simp: after_Returned_iff)

lemma invoke_Returned_iff:
  "invoke c rs f s = Returned r evs s'
     \<longleftrightarrow> (\<exists>w'. f (world s) = Some (r, w') \<and> evs = [Call c (rs r)] \<and> s' = s\<lparr>world := w'\<rparr>)"
  by (auto simp: invoke_def split: option.splits)

lemma result_and_then:
  assumes "\<And>a s. result (k a s) \<in> R" and "None \<in> R"
  shows "result (and_then m k) \<in> R"
  using assms by (cases m) simp_all

lemma Stop_result: "result (Stop env ctx s) \<in> {None, Some None}"
  unfolding Stop_def
  by (intro result_and_then) simp_all

lemma keeps_True: "keeps (\<lambda>s. True) m"
  by (simp add: keeps_def)

lemma setupHTTPServer_keeps_server:
  "keeps (\<lambda>s'. server (svc s') \<noteq> None) (setupHTTPServer env s)"
  unfolding setupHTTPServer_def
  by (auto intro!: keeps_and_then[where P = "\<lambda>s. True"] keeps_True keeps_after
      keeps_logf keeps_Returned keeps_NilPanic simp: Let_def split: option.splits)

lemma Initialize_tail_keeps_server:
  "keeps (\<lambda>s'. server (svc s') \<noteq> None) (Initialize_tail env s)"
  unfolding Initialize_tail_def
  apply (rule keeps_and_then[where P = "\<lambda>s. True"], rule keeps_True)
  apply (rule keeps_and_then[where P = "\<lambda>s. True"], rule keeps_True)
  apply (rule keeps_and_then[where P = "\<lambda>s. True"], rule keeps_True)
  apply (rule keeps_and_then[where P = "\<lambda>s. True"], rule keeps_True)
  apply (rule keeps_and_then[where P = "\<lambda>s'. server (svc s') \<noteq> None"])
   apply (rule setupHTTPServer_keeps_server)
  apply (simp add: keeps_Returned)
  done

lemma Initialize_success_server:
  assumes "Initialize env s = Returned None evs s'"
  shows "server (svc s') \<noteq> None"
  using Initialize_shape[of env s]
proof (elim disjE exE conjE, goal_cases)
  case 1
  with assms show ?case by simp
next
  case (2 e w)
  with assms show ?case by simp
next
  case 3
  with assms show ?case by simp
next
  case (4 e w)
  with assms show ?case by simp
next
  case (5 cfg)
  with assms show ?case by simp
next
  case (6 cfg e s'')
  with assms show ?case by simp
next
  case (7 cfg w)
  with assms obtain evs' where
    "Initialize_tail env \<lparr>svc = with_components cfg (svc s), world = w\<rparr> = Returned None evs' s'"
    by (cases "Initialize_tail env \<lparr>svc = with_components cfg (svc s), world = w\<rparr>") auto
  with Initialize_tail_keeps_server[of env "\<lparr>svc = with_components cfg (svc s), world = w\<rparr>"]
  show ?case by (simp add: keeps_def)
qed

lemma Start_success_keeps:
  assumes "Start env ctx s = Returned None evs s'"
  shows "svc s' = svc s"
  using assms
  by (auto simp: Start_def and_then_Returned_iff invoke_Returned_iff split: option.splits)

lemma Stop_completes:
  assumes "result (Stop env ctx s) \<noteq> None"
  shows "calls (events (Stop env ctx s)) = stop_steps ctx (svc s)"
    and "list_all finished (events (Stop env ctx s))"
  using Stop_in_order[of ctx s env] assms
  by (cases "Stop env ctx s"; simp add: runs_in_order_def)+

lemma main_reaches_Stop:
  assumes nh: "\<not> (length args > 1 \<and> (args ! 1 = ''-h'' \<or> args ! 1 = ''--help''))"
    and r: "result (main env args w) = Some 0"
  shows "\<exists>pre s1. events (main env args w)
                     = pre @ Printf L_ShutdownSignal # events (Stop env shutdownCtx s1)
           \<and> result (Stop env shutdownCtx s1) = Some None \<and> server (svc s1) \<noteq> None"
proof -
  from r obtain evs s' where m: "main env args w = Returned 0 evs s'"
    by (cases "main env args w") auto
  let ?s0 = "\<lparr>svc = NewService, world = w\<rparr>"
  from m nh obtain e1 s1 e2 err1 where
    i: "Initialize env ?s0 = Returned err1 e1 s1"
    and k1: "(case err1 of
            Some e \<Rightarrow> Returned 1 [Printf (L_FatalInit e)] s1
          | None \<Rightarrow>
        and_then (Start env (WithCancel Background) s1) (\<lambda>err s.
          case err of
            Some e \<Rightarrow> Returned 1 [Printf (L_FatalStart e)] s
          | None \<Rightarrow>
        and_then (invoke AwaitSignal_call (\<lambda>_. Ok) (AwaitSignal env) s) (\<lambda>_ s.
        and_then (logf L_ShutdownSignal s) (\<lambda>_ s.
        and_then (Stop env shutdownCtx s) (\<lambda>err s.
          case err of
            Some e \<Rightarrow> Returned 0 [Printf (L_ShutdownError e)] s
          | None \<Rightarrow> Returned 0 [] s))))) = Returned (0::nat) e2 s'"
    and ev1: "evs = e1 @ e2"
    unfolding main_def Let_def by (auto simp: and_then_Returned_iff)
  from k1 have err1: "err1 = None" by (cases err1) simp_all
  from i err1 have srv1: "server (svc s1) \<noteq> None" by (simp add: Initialize_success_server)
  from k1 err1 obtain err2 e2a s2 e3 where
    st: "Start env (WithCancel Background) s1 = Returned err2 e2a s2"
    and k2: "(case err2 of
            Some e \<Rightarrow> Returned 1 [Printf (L_FatalStart e)] s2
          | None \<Rightarrow>
        and_then (invoke AwaitSignal_call (\<lambda>_. Ok) (AwaitSignal env) s2) (\<lambda>_ s.
        and_then (logf L_ShutdownSignal s) (\<lambda>_ s.
        and_then (Stop env shutdownCtx s) (\<lambda>err s.
          case err of
            Some e \<Rightarrow> Returned 0 [Printf (L_ShutdownError e)] s
          | None \<Rightarrow> Returned 0 [] s)))) = Returned (0::nat) e3 s'"
    and ev2: "e2 = e2a @ e3"
    by (auto simp: and_then_Returned_iff)
  from k2 have err2: "err2 = None" by (cases err2) simp_all
  from st err2 have sv2: "svc s2 = svc s1" by (simp add: Start_success_keeps)
  from k2 err2 obtain w3 r4 e4 s4 e5 where
    ev3: "e3 = [Call AwaitSignal_call Ok] @ [Printf L_ShutdownSignal] @ e4 @ e5"
    and sp: "Stop env shutdownCtx (s2\<lparr>world := w3\<rparr>) = Returned r4 e4 s4"
    and k5: "(case r4 of
            Some e \<Rightarrow> Returned 0 [Printf (L_ShutdownError e)] s4
          | None \<Rightarrow> Returned 0 [] s4) = Returned (0::nat) e5 s'"
    by (auto simp: and_then_Returned_iff invoke_Returned_iff after_Returned_iff)
  from Stop_result[of env shutdownCtx "s2\<lparr>world := w3\<rparr>"] sp have r4: "r4 = None" by simp
  with k5 have e5: "e5 = []" by simp
  have "events (main env args w)
          = (e1 @ e2a @ [Call AwaitSignal_call Ok]) @ Printf L_ShutdownSignal
              # events (Stop env shutdownCtx (s2\<lparr>world := w3\<rparr>))"
    using m ev1 ev2 ev3 e5 sp by simp
  moreover have "result (Stop env shutdownCtx (s2\<lparr>world := w3\<rparr>)) = Some None"
    using sp r4 by simp
  moreover have "server (svc (s2\<lparr>world := w3\<rparr>)) \<noteq> None" using srv1 sv2 by simp
  ultimately show ?thesis by blast
qed

text \<open>
  Claim C9, as the code has it. The shutdown context of \<^verbatim>\<open>main\<close> has a deadline of 30
  seconds, and \<^verbatim>\<open>main\<close> passes it to \<^verbatim>\<open>Stop\<close>: whenever \<^verbatim>\<open>main\<close> runs through to its
  normal exit (not by the help option), its events end with those of \<^verbatim>\<open>Stop\<close> run
  with that context on a service whose HTTP server is set, the shutdown of the HTTP
  server with that context among them. \<^verbatim>\<open>Stop\<close> hands the context to the shutdown of
  the HTTP server, whenever the service has one, and to no other call: the watchdog
  stop, the handle cleanup and the interface teardowns are called without a context.
  \<^verbatim>\<open>Stop\<close> returns, with nil and after all its steps, when each of the calls it makes
  returns. Whatever the context, \<^verbatim>\<open>Stop\<close> does not return when one of its calls does
  not return; when the watchdog stop does not return, nothing after it is started.
\<close>

theorem stop_deadline_reaches_http_shutdown_only:
  fixes s :: "'w state" and env :: "('w, 'c) collaborators"
  shows "timeout_of shutdownCtx = Some (30 * Second)
    \<and> (\<not> (length args > 1 \<and> (args ! 1 = ''-h'' \<or> args ! 1 = ''--help''))
         \<and> result (main env args w) = Some 0 \<longrightarrow>
       (\<exists>pre s1. events (main env args w)
                    = pre @ Printf L_ShutdownSignal # events (Stop env shutdownCtx s1)
          \<and> result (Stop env shutdownCtx s1) = Some None
          \<and> server (svc s1) \<noteq> None
          \<and> ServerShutdown_call shutdownCtx \<in> set (calls (events (Stop env shutdownCtx s1)))))
    \<and> ((\<forall>r w. WatchdogStop env r w \<noteq> None)
         \<and> (\<forall>srv c w. ServerShutdown env srv c w \<noteq> None)
         \<and> (\<forall>r w. Cleanup env r w \<noteq> None)
         \<and> (\<forall>r n w. TeardownInterface env r n w \<noteq> None)
         \<and> (setupManager (svc s) \<noteq> None \<longrightarrow> config (svc s) \<noteq> None) \<longrightarrow>
       (\<exists>evs s'. Stop env shutdownCtx s = Returned None evs s'
          \<and> calls evs = stop_steps shutdownCtx (svc s)
          \<and> (server (svc s) \<noteq> None \<longrightarrow> ServerShutdown_call shutdownCtx \<in> set (calls evs))
          \<and> (\<forall>c \<in> set (calls evs). context_of c = None \<or> c = ServerShutdown_call shutdownCtx)))
    \<and> (\<forall>ctx c. Call c Pending \<in> set (events (Stop env ctx s)) \<longrightarrow> result (Stop env ctx s) = None)
    \<and> (WatchdogStop env (watchdog (svc s)) (world s) = None \<longrightarrow>
         (\<forall>ctx. Stop env ctx s = NoReturn [Printf L_Stopping, Call WatchdogStop_call Pending]))"
proof (intro conjI impI allI)
  show "timeout_of shutdownCtx = Some (30 * Second)"
    by (simp add: shutdownCtx_def)
next
  assume a: "\<not> (length args > 1 \<and> (args ! 1 = ''-h'' \<or> args ! 1 = ''--help''))
         \<and> result (main env args w) = Some 0"
  then have nh: "\<not> (length args > 1 \<and> (args ! 1 = ''-h'' \<or> args ! 1 = ''--help''))"
    and r: "result (main env args w) = Some 0" by blast+
  from main_reaches_Stop[OF nh r] obtain pre s1 where
    e: "events (main env args w) = pre @ Printf L_ShutdownSignal # events (Stop env shutdownCtx s1)"
    and rs: "result (Stop env shutdownCtx s1) = Some None"
    and sv: "server (svc s1) \<noteq> None" by blast
  from rs have "calls (events (Stop env shutdownCtx s1)) = stop_steps shutdownCtx (svc s1)"
    by (intro Stop_completes) simp
  with sv have "ServerShutdown_call shutdownCtx \<in> set (calls (events (Stop env shutdownCtx s1)))"
    by (auto simp: stop_steps_def)
  with e rs sv show "\<exists>pre s1. events (main env args w)
                    = pre @ Printf L_ShutdownSignal # events (Stop env shutdownCtx s1)
          \<and> result (Stop env shutdownCtx s1) = Some None
          \<and> server (svc s1) \<noteq> None
          \<and> ServerShutdown_call shutdownCtx \<in> set (calls (events (Stop env shutdownCtx s1)))"
    by blast
next
  assume a: "(\<forall>r w. WatchdogStop env r w \<noteq> None)
         \<and> (\<forall>srv c w. ServerShutdown env srv c w \<noteq> None)
         \<and> (\<forall>r w. Cleanup env r w \<noteq> None)
         \<and> (\<forall>r n w. TeardownInterface env r n w \<noteq> None)
         \<and> (setupManager (svc s) \<noteq> None \<longrightarrow> config (svc s) \<noteq> None)"
  then have h: "\<forall>r w. WatchdogStop env r w \<noteq> None"
    "\<forall>srv c w. ServerShutdown env srv c w \<noteq> None"
    "\<forall>r w. Cleanup env r w \<noteq> None"
    "\<forall>r n w. TeardownInterface env r n w \<noteq> None"
    "setupManager (svc s) \<noteq> None \<longrightarrow> config (svc s) \<noteq> None" by blast+
  from Stop_returns[OF h, of shutdownCtx] obtain evs s' where
    r: "Stop env shutdownCtx s = Returned None evs s'"
    and c: "calls evs = stop_steps shutdownCtx (svc s)"
    by (auto simp: returns_with_def)
  have 1: "server (svc s) \<noteq> None \<longrightarrow> ServerShutdown_call shutdownCtx \<in> set (stop_steps shutdownCtx (svc s))"
    by (auto simp: stop_steps_def)
  have 2: "\<forall>c \<in> set (stop_steps shutdownCtx (svc s)).
          context_of c = None \<or> c = ServerShutdown_call shutdownCtx"
    by (auto simp: stop_steps_def split: option.splits)
  from r c 1 2 show "\<exists>evs s'. Stop env shutdownCtx s = Returned None evs s'
          \<and> calls evs = stop_steps shutdownCtx (svc s)
          \<and> (server (svc s) \<noteq> None \<longrightarrow> ServerShutdown_call shutdownCtx \<in> set (calls evs))
          \<and> (\<forall>c \<in> set (calls evs). context_of c = None \<or> c = ServerShutdown_call shutdownCtx)"
    by simp
next
  fix ctx c
  assume p: "Call c Pending \<in> set (events (Stop env ctx s))"
  show "result (Stop env ctx s) = None"
  proof (rule ccontr)
    assume "result (Stop env ctx s) \<noteq> None"
    then have "list_all finished (events (Stop env ctx s))" by (rule Stop_completes)
    with p show False by (auto simp: list_all_iff)
  qed
next
  fix ctx
  assume "WatchdogStop env (watchdog (svc s)) (world s) = None"
  then show "Stop env ctx s = NoReturn [Printf L_Stopping, Call WatchdogStop_call Pending]"
    by (simp add: Stop_def invoke_None)
qed

text \<open>A run of \<^verbatim>\<open>main\<close> and a shutdown in the deployment with all interfaces up, and
  the shutdown with the watchdog that does not stop.\<close>

theorem stop_deadline_reaches_http_shutdown_only_witness:
  "timeout_of shutdownCtx = Some 30000000000
   \<and> \<not> (length [''can-bridge''] > 1 \<and> ([''can-bridge''] ! 1 = ''-h'' \<or> [''can-bridge''] ! 1 = ''--help''))
   \<and> result (main (demo_env []) [''can-bridge''] []) = Some 0
   \<and> (\<exists>pre s1. events (main (demo_env []) [''can-bridge''] [])
                    = pre @ Printf L_ShutdownSignal # events (Stop (demo_env []) shutdownCtx s1)
          \<and> result (Stop (demo_env []) shutdownCtx s1) = Some None
          \<and> server (svc s1) \<noteq> None
          \<and> ServerShutdown_call shutdownCtx \<in> set (calls (events (Stop (demo_env []) shutdownCtx s1))))
   \<and> (\<forall>r w. WatchdogStop (demo_env []) r w \<noteq> None)
   \<and> (\<forall>srv c w. ServerShutdown (demo_env []) srv c w \<noteq> None)
   \<and> (\<forall>r w. Cleanup (demo_env []) r w \<noteq> None)
   \<and> (\<forall>r n w. TeardownInterface (demo_env []) r n w \<noteq> None)
   \<and> setupManager (svc \<lparr>svc = demo_service, world = [''can0'']\<rparr>) \<noteq> None
   \<and> config (svc \<lparr>svc = demo_service, world = [''can0'']\<rparr>) \<noteq> None
   \<and> server (svc \<lparr>svc = demo_service, world = [''can0'']\<rparr>) \<noteq> None
   \<and> (\<exists>evs s'. Stop (demo_env []) shutdownCtx \<lparr>svc = demo_service, world = [''can0'']\<rparr> = Returned None evs s'
          \<and> calls evs = stop_steps shutdownCtx (svc \<lparr>svc = demo_service, world = [''can0'']\<rparr>)
          \<and> ServerShutdown_call shutdownCtx \<in> set (calls evs)
          \<and> (\<forall>c \<in> set (calls evs). context_of c = None \<or> c = ServerShutdown_call shutdownCtx))
   \<and> stop_steps shutdownCtx (svc \<lparr>svc = demo_service, world = [''can0'']\<rparr>)
       = [WatchdogStop_call, ServerShutdown_call shutdownCtx, Cleanup_call,
          TeardownInterface_call ''can0'', TeardownInterface_call ''can1'',
          TeardownInterface_call ''can2'']
   \<and> Call WatchdogStop_call Pending \<in> set (events (Stop demo_env_hung_watchdog shutdownCtx \<lparr>svc = demo_service, world = [''can0'']\<rparr>))
   \<and> result (Stop demo_env_hung_watchdog shutdownCtx \<lparr>svc = demo_service, world = [''can0'']\<rparr>) = None
   \<and> WatchdogStop demo_env_hung_watchdog (watchdog (svc \<lparr>svc = demo_service, world = [''can0'']\<rparr>)) (world \<lparr>svc = demo_service, world = [''can0'']\<rparr>) = None
   \<and> (\<forall>ctx. Stop demo_env_hung_watchdog ctx \<lparr>svc = demo_service, world = [''can0'']\<rparr>
             = NoReturn [Printf L_Stopping, Call WatchdogStop_call Pending])"
proof -
  note A = stop_deadline_reaches_http_shutdown_only[where env = "demo_env []"
      and args = "[''can-bridge'']" and w = "[]" and s = "\<lparr>svc = demo_service, world = [''can0'']\<rparr>"]
  note B = stop_deadline_reaches_http_shutdown_only[where env = demo_env_hung_watchdog
      and args = "[''can-bridge'']" and w = "[]" and s = "\<lparr>svc = demo_service, world = [''can0'']\<rparr>"]
  have c1: "timeout_of shutdownCtx = Some 30000000000"
    using A[THEN conjunct1] by (simp add: Second_def)
  have c2: "\<not> (length [''can-bridge''] > 1 \<and> ([''can-bridge''] ! 1 = ''-h'' \<or> [''can-bridge''] ! 1 = ''--help''))"
    by simp
  have c3: "result (main (demo_env []) [''can-bridge''] []) = Some 0"
    unfolding main_def Let_def
    by (simp add: demo_eval Start_def Stop_def teardownCanInterfaces_def teardown_body_def)
  have c4: "\<exists>pre s1. events (main (demo_env []) [''can-bridge''] [])
                    = pre @ Printf L_ShutdownSignal # events (Stop (demo_env []) shutdownCtx s1)
          \<and> result (Stop (demo_env []) shutdownCtx s1) = Some None
          \<and> server (svc s1) \<noteq> None
          \<and> ServerShutdown_call shutdownCtx \<in> set (calls (events (Stop (demo_env []) shutdownCtx s1)))"
    by (rule mp[OF A[THEN conjunct2, THEN conjunct1]]) (rule conjI[OF c2 c3])
  have h1: "\<forall>r w. WatchdogStop (demo_env []) r w \<noteq> None"
    by (simp add: demo_env_def)
  have h2: "\<forall>srv c w. ServerShutdown (demo_env []) srv c w \<noteq> None"
    by (simp add: demo_env_def)
  have h3: "\<forall>r w. Cleanup (demo_env []) r w \<noteq> None"
    by (simp add: demo_env_def)
  have h4: "\<forall>r n w. TeardownInterface (demo_env []) r n w \<noteq> None"
    by (simp add: demo_env_def)
  have h5: "setupManager (svc \<lparr>svc = demo_service, world = [''can0'']\<rparr>) \<noteq> None"
    and h6: "config (svc \<lparr>svc = demo_service, world = [''can0'']\<rparr>) \<noteq> None"
    and h7: "server (svc \<lparr>svc = demo_service, world = [''can0'']\<rparr>) \<noteq> None"
    by (simp_all add: demo_service_def)
  have "\<exists>evs s'. Stop (demo_env []) shutdownCtx \<lparr>svc = demo_service, world = [''can0'']\<rparr> = Returned None evs s'
          \<and> calls evs = stop_steps shutdownCtx (svc \<lparr>svc = demo_service, world = [''can0'']\<rparr>)
          \<and> (server (svc \<lparr>svc = demo_service, world = [''can0'']\<rparr>) \<noteq> None \<longrightarrow> ServerShutdown_call shutdownCtx \<in> set (calls evs))
          \<and> (\<forall>c \<in> set (calls evs). context_of c = None \<or> c = ServerShutdown_call shutdownCtx)"
    by (rule mp[OF A[THEN conjunct2, THEN conjunct2, THEN conjunct1]])
       (intro conjI impI h1 h2 h3 h4 h6)
  then obtain evs s' where
    "Stop (demo_env []) shutdownCtx \<lparr>svc = demo_service, world = [''can0'']\<rparr> = Returned None evs s'"
    "calls evs = stop_steps shutdownCtx (svc \<lparr>svc = demo_service, world = [''can0'']\<rparr>)"
    "server (svc \<lparr>svc = demo_service, world = [''can0'']\<rparr>) \<noteq> None \<longrightarrow> ServerShutdown_call shutdownCtx \<in> set (calls evs)"
    "\<forall>c \<in> set (calls evs). context_of c = None \<or> c = ServerShutdown_call shutdownCtx"
    by (elim exE conjE) (rule that)
  with h7 have c5: "\<exists>evs s'. Stop (demo_env []) shutdownCtx \<lparr>svc = demo_service, world = [''can0'']\<rparr> = Returned None evs s'
          \<and> calls evs = stop_steps shutdownCtx (svc \<lparr>svc = demo_service, world = [''can0'']\<rparr>)
          \<and> ServerShutdown_call shutdownCtx \<in> set (calls evs)
          \<and> (\<forall>c \<in> set (calls evs). context_of c = None \<or> c = ServerShutdown_call shutdownCtx)"
    by (intro exI[of _ evs] exI[of _ s'] conjI) (assumption | rule mp, assumption, assumption)+
  have c6: "stop_steps shutdownCtx (svc \<lparr>svc = demo_service, world = [''can0'']\<rparr>)
       = [WatchdogStop_call, ServerShutdown_call shutdownCtx, Cleanup_call,
          TeardownInterface_call ''can0'', TeardownInterface_call ''can1'',
          TeardownInterface_call ''can2'']"
    by (simp add: stop_steps_def demo_service_def demo_config_def)
  have c7: "Call WatchdogStop_call Pending \<in> set (events (Stop demo_env_hung_watchdog shutdownCtx \<lparr>svc = demo_service, world = [''can0'']\<rparr>))"
    by (simp add: Stop_def invoke_def demo_env_hung_watchdog_def logf_def)
  have c8: "result (Stop demo_env_hung_watchdog shutdownCtx \<lparr>svc = demo_service, world = [''can0'']\<rparr>) = None"
    by (rule mp[OF spec[OF spec[OF B[THEN conjunct2, THEN conjunct2, THEN conjunct2, THEN conjunct1]]]])
       (rule c7)
  have c9: "WatchdogStop demo_env_hung_watchdog (watchdog (svc \<lparr>svc = demo_service, world = [''can0'']\<rparr>)) (world \<lparr>svc = demo_service, world = [''can0'']\<rparr>) = None"
    by (simp add: demo_env_hung_watchdog_def)
  have c10: "\<forall>ctx. Stop demo_env_hung_watchdog ctx \<lparr>svc = demo_service, world = [''can0'']\<rparr>
             = NoReturn [Printf L_Stopping, Call WatchdogStop_call Pending]"
    by (rule mp[OF B[THEN conjunct2, THEN conjunct2, THEN conjunct2, THEN conjunct2]]) (rule c9)
  show ?thesis
    by (intro conjI c1 c2 c3 c4 h1 h2 h3 h4 h5 h6 h7 c5 c6 c7 c8 c9 c10)
qed

text \<open>
  Claim C9 as stated fails: with a watchdog whose \<^verbatim>\<open>Stop\<close> does not return, \<^verbatim>\<open>Stop\<close>
  does not return either, deadline or not; the context has not been handed to anyone.
\<close>

theorem stop_bounded_counterexample:
  "timeout_of shutdownCtx = Some 30000000000
   \<and> Stop demo_env_hung_watchdog shutdownCtx \<lparr>svc = demo_service, world = [''can0'']\<rparr>
       = NoReturn [Printf L_Stopping, Call WatchdogStop_call Pending]"
  by (simp add: Stop_def invoke_def demo_env_hung_watchdog_def shutdownCtx_def Second_def logf_def)

end
